theory Spec2Isabelle
  imports Complex_Main "HOL-Library.Log_Nat"
begin

section \<open>Data model (models.py, and the session cart of app.py)\<close>

text \<open>
  The storefront keeps its durable state in three tables that matter here
  (\<^verbatim>\<open>products\<close>, \<^verbatim>\<open>orders\<close>, \<^verbatim>\<open>order_items\<close>) and the cart in the
  client's session. A table is the list of its rows in insertion order; a row is a
  record with the columns of models.py. The wall-clock column \<^verbatim>\<open>created_at\<close> has
  no part in any operation below and is left out.
\<close>

subsection \<open>Python floats\<close>

text \<open>
  Prices and quantities are Python \<^verbatim>\<open>float\<close>s, that is IEEE 754 double-precision
  numbers. A finite float is modelled by the real number it stands for; comparisons are
  then the comparisons of the reals, and every arithmetic operation yields the exact
  result rounded to the nearest double, ties to the even mantissa. NaN and the infinities
  are not values of the model, and results are taken to stay below the overflow
  threshold.

  \<open>float_exponent x\<close> is the \<open>e\<close> with \<open>2 ^ e \<le> x < 2 ^ (e + 1)\<close> for \<open>x > 0\<close>; a double
  with that exponent is a multiple of \<open>2 ^ (e - 52)\<close>, and of \<open>2 ^ (- 1074)\<close> in the
  subnormal range.
\<close>

definition pow2 :: "int \<Rightarrow> real" where
  "pow2 k = (if 0 \<le> k then 2 ^ nat k else 1 / 2 ^ nat (- k))"

definition round_half_even :: "real \<Rightarrow> int" where
  "round_half_even x =
     (let f = \<lfloor>x\<rfloor>; d = x - of_int f
      in if d < 1 / 2 then f else if 1 / 2 < d then f + 1 else if even f then f else f + 1)"

definition float_exponent :: "real \<Rightarrow> int" where
  "float_exponent x = (if 1 \<le> x then bitlen \<lfloor>x\<rfloor> - 1 else - bitlen (\<lceil>1 / x\<rceil> - 1))"

definition round_double :: "real \<Rightarrow> real" where
  "round_double x =
     (if x = 0 then 0
      else let ulp = pow2 (max (float_exponent \<bar>x\<bar>) (- 1022) - 52)
           in sgn x * of_int (round_half_even (\<bar>x\<bar> / ulp)) * ulp)"

text \<open>
  A decimal literal or \<^verbatim>\<open>float('0.1')\<close> is the double nearest to the decimal; \<^verbatim>\<open>+\<close>,
  \<^verbatim>\<open>-\<close> and \<^verbatim>\<open>*\<close> on floats round the exact result.
\<close>

definition py_float :: "real \<Rightarrow> real" where
  "py_float decimal = round_double decimal"

definition fadd :: "real \<Rightarrow> real \<Rightarrow> real" where
  "fadd a b = round_double (a + b)"

definition fsub :: "real \<Rightarrow> real \<Rightarrow> real" where
  "fsub a b = round_double (a - b)"

definition fmul :: "real \<Rightarrow> real \<Rightarrow> real" where
  "fmul a b = round_double (a * b)"

subsection \<open>Tables and session\<close>

record product =
  p_id :: nat
  p_name :: string
  p_description :: "string option"
  p_price :: real
  p_original_price :: "real option"
  p_quantity_available :: real
  p_unit_type :: string
  p_image_path :: "string option"

text \<open>
  The \<^verbatim>\<open>product_id\<close> of a cart request is the value of the JSON body as it came, an
  integer or a string (\<^verbatim>\<open>data.get('product_id')\<close>, never converted); Python's \<^verbatim>\<open>==\<close>
  holds between two such values when they are the same integer or the same string, and
  never between an integer and a string. (A JSON float or boolean compares, and selects a
  row, like the integer it equals; these are left out.)
\<close>

datatype raw_id = IntId int | StrId string

text \<open>A cart line is the dict that \<^verbatim>\<open>add_to_cart\<close> appends to \<^verbatim>\<open>session['cart']\<close>.\<close>

record cart_item =
  ci_product_id :: raw_id
  ci_quantity :: real
  ci_price :: real
  ci_name :: string
  ci_image_path :: "string option"
  ci_unit_type :: string

datatype datetime = DateTime nat nat nat nat nat

record order =
  o_id :: nat
  o_customer_name :: string
  o_customer_email :: "string option"
  o_customer_phone :: string
  o_pickup_time :: datetime
  o_total_amount :: real
  o_status :: string

record order_item =
  oi_id :: nat
  oi_order_id :: nat
  oi_product_id :: nat
  oi_quantity :: real
  oi_price :: real

record database =
  products :: "product list"
  orders :: "order list"
  order_items :: "order_item list"

text \<open>
  \<^verbatim>\<open>session['cart']\<close>: \<open>None\<close> when the key \<^verbatim>\<open>'cart'\<close> is not in the session,
  \<open>Some c\<close> when it holds the list \<open>c\<close> (which may be empty).
\<close>

type_synonym session_cart = "cart_item list option"

text \<open>
  What a route answers when it does not succeed. The constructors name the source's
  early returns:
  \<^item> \<open>NotFound\<close>: \<^verbatim>\<open>get_or_404\<close> found no row (HTTP 404);
  \<^item> \<open>InsufficientStock\<close>: \<^verbatim>\<open>{'error': 'Insufficient stock'}, 400\<close>;
  \<^item> \<open>CartIsEmpty\<close>: \<^verbatim>\<open>{'error': 'Cart is empty'}, 400\<close>;
  \<^item> \<open>EmptyCart\<close>: \<^verbatim>\<open>process_checkout\<close> redirects to the cart page because the
    session has no cart or an empty one;
  \<^item> \<open>MissingFields\<close>: flash \<^verbatim>\<open>'Please fill all required fields'\<close>;
  \<^item> \<open>InvalidPickupTime\<close>: flash \<^verbatim>\<open>'Invalid pickup time'\<close>;
  \<^item> \<open>OutOfStock\<close>: flash \<^verbatim>\<open>'Some items in your cart are out of stock ...'\<close>;
  \<^item> \<open>IntegrityError\<close>: the commit violates a column constraint and is rolled back.
\<close>

datatype error =
  NotFound | InsufficientStock | CartIsEmpty
  | EmptyCart | MissingFields | InvalidPickupTime | OutOfStock | IntegrityError

text \<open>\<^verbatim>\<open>Product.query.get(id)\<close>: the row with that primary key, if there is one.\<close>

definition get_product :: "database \<Rightarrow> nat \<Rightarrow> product option" where
  "get_product db pid = find (\<lambda>p. p_id p = pid) (products db)"

text \<open>
  \<^verbatim>\<open>Product.query.get(product_id)\<close> with the raw value of a cart request. The database
  compares the integer key column with the value: a number selects the row with that key,
  and a string selects the row with the key that the text converts to, so that \<^verbatim>\<open>"1"\<close>
  finds the product 1. \<open>text_key\<close> stands for that conversion of the database engine
  (\<open>None\<close> for a text that matches no integer key).
\<close>

definition resolve_id :: "(string \<Rightarrow> nat option) \<Rightarrow> raw_id \<Rightarrow> nat option" where
  "resolve_id text_key rid =
     (case rid of
        IntId i \<Rightarrow> if 0 \<le> i then Some (nat i) else None
      | StrId s \<Rightarrow> text_key s)"

definition query_get :: "(string \<Rightarrow> nat option) \<Rightarrow> database \<Rightarrow> raw_id \<Rightarrow> product option" where
  "query_get text_key db rid =
     (case resolve_id text_key rid of None \<Rightarrow> None | Some k \<Rightarrow> get_product db k)"

text \<open>\<^verbatim>\<open>Order.query.get(id)\<close>.\<close>

definition get_order :: "database \<Rightarrow> nat \<Rightarrow> order option" where
  "get_order db oid = find (\<lambda>ord. o_id ord = oid) (orders db)"

section \<open>Cart operations (app.py, lines 321-421)\<close>

text \<open>
  The loop of \<^verbatim>\<open>add_to_cart\<close> (lines 338-345) over the cart: at the first line whose
  \<^verbatim>\<open>product_id\<close> is \<^verbatim>\<open>==\<close> to the request's it either returns the error or sums the
  quantities and stops.
  \<open>None\<close> means the loop ended with \<^verbatim>\<open>item_found = False\<close>.
\<close>

fun add_loop :: "cart_item list \<Rightarrow> raw_id \<Rightarrow> real \<Rightarrow> real \<Rightarrow> (error + cart_item list) option" where
  "add_loop [] pid quantity avail = None"
| "add_loop (item # rest) pid quantity avail =
     (if ci_product_id item = pid then
        (let new_quantity = fadd (ci_quantity item) quantity in
         if new_quantity > avail then Some (Inl InsufficientStock)
         else Some (Inr (item\<lparr>ci_quantity := new_quantity\<rparr> # rest)))
      else
        (case add_loop rest pid quantity avail of
           None \<Rightarrow> None
         | Some (Inl e) \<Rightarrow> Some (Inl e)
         | Some (Inr rest') \<Rightarrow> Some (Inr (item # rest'))))"

text \<open>
  \<^verbatim>\<open>add_to_cart\<close>. The request's \<^verbatim>\<open>quantity\<close> is optional and defaults to 1. The
  result is the answer (the new \<^verbatim>\<open>cart_count\<close> on success) and the session cart
  afterwards.
\<close>

definition add_to_cart ::
  "(string \<Rightarrow> nat option) \<Rightarrow> database \<Rightarrow> session_cart \<Rightarrow> raw_id \<Rightarrow> real option
     \<Rightarrow> (error + nat) \<times> session_cart" where
  "add_to_cart text_key db sess product_id qreq =
     (let quantity = (case qreq of None \<Rightarrow> 1 | Some q \<Rightarrow> q) in
      case query_get text_key db product_id of
        None \<Rightarrow> (Inl NotFound, sess)
      | Some product \<Rightarrow>
          if quantity > p_quantity_available product then (Inl InsufficientStock, sess)
          else
            (let cart = (case sess of None \<Rightarrow> [] | Some c \<Rightarrow> c) in
             case add_loop cart product_id quantity (p_quantity_available product) of
               Some (Inl e) \<Rightarrow> (Inl e, sess)
             | Some (Inr cart') \<Rightarrow> (Inr (length cart'), Some cart')
             | None \<Rightarrow>
                 (let cart' = cart @
                    [\<lparr>ci_product_id = product_id, ci_quantity = quantity,
                      ci_price = p_price product, ci_name = p_name product,
                      ci_image_path = p_image_path product,
                      ci_unit_type = p_unit_type product\<rparr>]
                  in (Inr (length cart'), Some cart'))))"




section \<open>Checkout (app.py, lines 457-531)\<close>

text \<open>
  The checkout form: \<^verbatim>\<open>request.form.get\<close> gives \<open>None\<close> for a field that was
  not sent.
\<close>

record checkout_form =
  customer_name :: "string option"
  customer_email :: "string option"
  customer_phone :: "string option"
  pickup_date :: "string option"
  pickup_time_slot :: "string option"

text \<open>
  A field passes \<^verbatim>\<open>all([...])\<close> when it is a non-empty string; \<^verbatim>\<open>x or None\<close>
  maps the empty string to \<open>None\<close> in the same way.
\<close>

definition truthy :: "string option \<Rightarrow> string option" where
  "truthy field = (case field of None \<Rightarrow> None | Some s \<Rightarrow> if s = [] then None else Some s)"

text \<open>
  The primary key that SQLite gives a new row of a table whose keys are \<open>ids\<close>: one
  more than the largest key in use, 1 for an empty table.
\<close>

definition fresh_id :: "nat list \<Rightarrow> nat" where
  "fresh_id ids = Suc (fold max ids 0)"

text \<open>
  The first loop (lines 480-495): every line is checked against the product row as it is
  now, and the total is accumulated (\<open>total_acc\<close> is the source's \<^verbatim>\<open>total\<close>); the first line that fails ends the request.
\<close>

fun validate_cart ::
  "(string \<Rightarrow> nat option) \<Rightarrow> database \<Rightarrow> cart_item list \<Rightarrow> real \<Rightarrow> error + real" where
  "validate_cart text_key db [] total_acc = Inr total_acc"
| "validate_cart text_key db (item # rest) total_acc =
     (case query_get text_key db (ci_product_id item) of
        None \<Rightarrow> Inl OutOfStock
      | Some product \<Rightarrow>
          if p_quantity_available product \<le> 0
             \<or> ci_quantity item > p_quantity_available product
          then Inl OutOfStock
          else validate_cart text_key db rest
                 (fadd total_acc (fmul (ci_price item) (ci_quantity item))))"

text \<open>
  One round of the second loop (lines 510-520): an \<^verbatim>\<open>OrderItem\<close> row for the line, and
  the line's quantity taken from the product row. \<^verbatim>\<open>item['product']\<close> is the row
  object that the first loop loaded for the line, the row with the key \<open>k\<close> that the line's
  \<^verbatim>\<open>product_id\<close> resolves to; within one database session a primary key has one
  object, so two lines of one product decrement the same row one after the other. (The
  second loop runs only after the first has found a row for every line; a line without
  one has no round.)
\<close>

definition commit_item ::
  "(string \<Rightarrow> nat option) \<Rightarrow> nat \<Rightarrow> cart_item \<Rightarrow> database \<Rightarrow> database" where
  "commit_item text_key order_id item db =
     (case resolve_id text_key (ci_product_id item) of
        None \<Rightarrow> db
      | Some k \<Rightarrow>
          db\<lparr>order_items := order_items db @
               [\<lparr>oi_id = fresh_id (map oi_id (order_items db)), oi_order_id = order_id,
                 oi_product_id = k, oi_quantity = ci_quantity item,
                 oi_price = ci_price item\<rparr>],
             products := map (\<lambda>p. if p_id p = k
                                   then p\<lparr>p_quantity_available :=
                                            fsub (p_quantity_available p) (ci_quantity item)\<rparr>
                                   else p) (products db)\<rparr>)"

fun commit_items ::
  "(string \<Rightarrow> nat option) \<Rightarrow> nat \<Rightarrow> cart_item list \<Rightarrow> database \<Rightarrow> database" where
  "commit_items text_key order_id [] db = db"
| "commit_items text_key order_id (item # rest) db =
     commit_items text_key order_id rest (commit_item text_key order_id item db)"

text \<open>
  \<^verbatim>\<open>process_checkout\<close>. \<open>strptime\<close> stands for
  \<^verbatim>\<open>datetime.strptime(_, "%Y-%m-%d %I:%M %p")\<close>, with \<open>None\<close> where the library
  raises. The result is the answer (the new order's id on success), the database and the
  session cart afterwards. The notification mail is sent after the commit and touches
  neither.
\<close>

definition process_checkout ::
  "(string \<Rightarrow> nat option) \<Rightarrow> (string \<Rightarrow> datetime option) \<Rightarrow> checkout_form \<Rightarrow> database \<Rightarrow> session_cart
     \<Rightarrow> (error + nat) \<times> database \<times> session_cart" where
  "process_checkout text_key strptime form db sess =
     (case sess of
        None \<Rightarrow> (Inl EmptyCart, db, sess)
      | Some cart \<Rightarrow>
          if cart = [] then (Inl EmptyCart, db, sess)
          else
            (case (truthy (customer_name form), truthy (customer_phone form),
                   truthy (pickup_date form), truthy (pickup_time_slot form)) of
               (Some name, Some phone, Some date, Some slot) \<Rightarrow>
                 (case strptime (date @ '' '' @ slot) of
                    None \<Rightarrow> (Inl InvalidPickupTime, db, sess)
                  | Some pickup_datetime \<Rightarrow>
                      (case validate_cart text_key db cart 0 of
                         Inl e \<Rightarrow> (Inl e, db, sess)
                       | Inr total_acc \<Rightarrow>
                           (let order = \<lparr>o_id = fresh_id (map o_id (orders db)),
                                         o_customer_name = name,
                                         o_customer_email = truthy (customer_email form),
                                         o_customer_phone = phone,
                                         o_pickup_time = pickup_datetime,
                                         o_total_amount = total_acc,
                                         o_status = ''pending''\<rparr>;
                                db1 = db\<lparr>orders := orders db @ [order]\<rparr>
                            in (Inr (o_id order), commit_items text_key (o_id order) cart db1, None))))
             | _ \<Rightarrow> (Inl MissingFields, db, sess)))"

section \<open>Seller back office (app.py, lines 736-834 and 953-979)\<close>

text \<open>
  The seller routes are wrapped in \<^verbatim>\<open>seller_login_required\<close>, which redirects a
  session without a seller before the route runs; the definitions below are the routes
  themselves. The product form carries the numbers that \<^verbatim>\<open>float(...)\<close> parsed (a value
  that does not parse raises before anything is written) and, in \<open>pf_image\<close>, the stored
  path of an accepted upload.
\<close>

record product_form =
  pf_name :: string
  pf_description :: "string option"
  pf_price :: real
  pf_original_price :: "real option"
  pf_quantity :: real
  pf_unit_type :: string
  pf_image :: "string option"

definition add_product :: "product_form \<Rightarrow> database \<Rightarrow> database" where
  "add_product form db =
     db\<lparr>products := products db @
          [\<lparr>p_id = fresh_id (map p_id (products db)), p_name = pf_name form,
            p_description = pf_description form, p_price = pf_price form,
            p_original_price = pf_original_price form,
            p_quantity_available = pf_quantity form, p_unit_type = pf_unit_type form,
            p_image_path = pf_image form\<rparr>]\<rparr>"

definition update_product :: "nat \<Rightarrow> product_form \<Rightarrow> database \<Rightarrow> (error + unit) \<times> database" where
  "update_product pid form db =
     (case get_product db pid of
        None \<Rightarrow> (Inl NotFound, db)
      | Some _ \<Rightarrow>
          (Inr (), db\<lparr>products := map (\<lambda>p. if p_id p = pid
                 then p\<lparr>p_name := pf_name form, p_description := pf_description form,
                        p_price := pf_price form, p_original_price := pf_original_price form,
                        p_quantity_available := pf_quantity form,
                        p_unit_type := pf_unit_type form,
                        p_image_path := (case pf_image form of None \<Rightarrow> p_image_path p
                                         | Some path \<Rightarrow> Some path)\<rparr>
                 else p) (products db)\<rparr>))"


definition mark_out_of_stock :: "nat \<Rightarrow> database \<Rightarrow> (error + unit) \<times> database" where
  "mark_out_of_stock pid db =
     (case get_product db pid of
        None \<Rightarrow> (Inl NotFound, db)
      | Some _ \<Rightarrow>
          (Inr (), db\<lparr>products := map (\<lambda>p. if p_id p = pid
                 then p\<lparr>p_quantity_available := 0\<rparr> else p) (products db)\<rparr>))"

text \<open>
  \<^verbatim>\<open>update_order_status\<close>: the redirect at the end is the answer on both branches of the
  membership test.
\<close>

definition update_order_status :: "nat \<Rightarrow> string option \<Rightarrow> database \<Rightarrow> (error + unit) \<times> database" where
  "update_order_status oid new_status db =
     (case get_order db oid of
        None \<Rightarrow> (Inl NotFound, db)
      | Some _ \<Rightarrow>
          (case new_status of
             None \<Rightarrow> (Inr (), db)
           | Some s \<Rightarrow>
               if s \<in> set [''pending'', ''ready'', ''completed'']
               then (Inr (), db\<lparr>orders := map (\<lambda>ord. if o_id ord = oid
                        then ord\<lparr>o_status := s\<rparr> else ord) (orders db)\<rparr>)
               else (Inr (), db)))"

text \<open>\<^verbatim>\<open>delete_order\<close>: the order's items, then the order.\<close>

definition delete_order :: "nat \<Rightarrow> database \<Rightarrow> (error + unit) \<times> database" where
  "delete_order oid db =
     (case get_order db oid of
        None \<Rightarrow> (Inl NotFound, db)
      | Some _ \<Rightarrow>
          (Inr (), db\<lparr>order_items := filter (\<lambda>i. oi_order_id i \<noteq> oid) (order_items db),
                      orders := filter (\<lambda>ord. o_id ord \<noteq> oid) (orders db)\<rparr>))"

section \<open>Quantity display (app.py, lines 927-951)\<close>

text \<open>Python's \<^verbatim>\<open>int(x)\<close> on a float: the fractional part is cut off, towards zero.\<close>

definition py_int :: "real \<Rightarrow> int" where
  "py_int x = (if 0 \<le> x then \<lfloor>x\<rfloor> else \<lceil>x\<rceil>)"

text \<open>Python's \<^verbatim>\<open>str\<close> of an integer: its decimal digits, with a minus sign if negative.\<close>

fun str_nat :: "nat \<Rightarrow> string" where
  "str_nat n = (if n < 10 then [char_of (48 + n)] else str_nat (n div 10) @ [char_of (48 + n mod 10)])"

definition str_int :: "int \<Rightarrow> string" where
  "str_int i = (if i < 0 then ''-'' @ str_nat (nat (- i)) else str_nat (nat i))"

text \<open>
  \<^verbatim>\<open>format_quantity\<close>. \<open>str_float\<close> stands for Python's \<^verbatim>\<open>str\<close> on a float,
  which the last branch calls. \<^verbatim>\<open>quantity % 1 == 0\<close> holds when the quantity is a
  whole number.
\<close>

definition format_quantity :: "(real \<Rightarrow> string) \<Rightarrow> real \<Rightarrow> string \<Rightarrow> string" where
  "format_quantity str_float quantity unit_type =
     (if unit_type = ''kg'' then
        (if quantity = 1 then ''1 kg''
         else if quantity = 0.75 then ''750g''
         else if quantity = 0.5 then ''500g''
         else if quantity = 0.25 then ''250g''
         else if quantity = py_float 0.1 then ''100g''
         else if quantity = of_int \<lfloor>quantity\<rfloor> then str_int (py_int quantity) @ '' kg''
         else str_int (py_int (fmul quantity 1000)) @ ''g'')
      else
        (if quantity = of_int \<lfloor>quantity\<rfloor> then str_int (py_int quantity)
         else str_float quantity))"

section \<open>The sample catalogue (init_db, lines 237-295)\<close>

definition sample_products :: "product list" where
  "sample_products =
     [\<lparr>p_id = 1, p_name = ''Fresh Apples'',
       p_description = Some ''Crisp and juicy red apples, perfect for snacking.'',
       p_price = 120, p_original_price = Some 150, p_quantity_available = 40,
       p_unit_type = ''kg'', p_image_path = Some ''uploads/products/apples.svg''\<rparr>,
      \<lparr>p_id = 2, p_name = ''Organic Bananas'',
       p_description = Some ''Sweet organic bananas, naturally ripened.'',
       p_price = 60, p_original_price = Some 75, p_quantity_available = 35,
       p_unit_type = ''dozen'', p_image_path = Some ''uploads/products/bananas.svg''\<rparr>,
      \<lparr>p_id = 3, p_name = ''Whole Wheat Bread'',
       p_description = Some ''Soft and healthy whole wheat bread loaf.'',
       p_price = 45, p_original_price = Some 55, p_quantity_available = 25,
       p_unit_type = ''quantity'', p_image_path = Some ''uploads/products/bread.svg''\<rparr>]"

definition sample_db :: database where
  "sample_db = \<lparr>products = sample_products, orders = [], order_items = []\<rparr>"

text \<open>The cart lines for 2 kg of apples and for 3 loaves of bread.\<close>

definition apples_line :: cart_item where
  "apples_line = \<lparr>ci_product_id = IntId 1, ci_quantity = 2, ci_price = 120, ci_name = ''Fresh Apples'',
     ci_image_path = Some ''uploads/products/apples.svg'', ci_unit_type = ''kg''\<rparr>"

definition bread_line :: cart_item where
  "bread_line = \<lparr>ci_product_id = IntId 3, ci_quantity = 3, ci_price = 45, ci_name = ''Whole Wheat Bread'',
     ci_image_path = Some ''uploads/products/bread.svg'', ci_unit_type = ''quantity''\<rparr>"

definition sample_form :: checkout_form where
  "sample_form = \<lparr>customer_name = Some ''Asha'', customer_email = Some [],
     customer_phone = Some ''5550100'', pickup_date = Some ''2025-01-15'',
     pickup_time_slot = Some ''7:00 AM''\<rparr>"

text \<open>
  A stand-in for the database's conversion of a text to a key, on the one text that the
  examples send: \<^verbatim>\<open>"1"\<close> finds the product 1.
\<close>

definition sample_text_key :: "string \<Rightarrow> nat option" where
  "sample_text_key s = (if s = ''1'' then Some 1 else None)"

text \<open>A stand-in for the library parser that accepts exactly that date and slot.\<close>

definition sample_strptime :: "string \<Rightarrow> datetime option" where
  "sample_strptime s = (if s = ''2025-01-15 7:00 AM'' then Some (DateTime 2025 1 15 7 0) else None)"

text \<open>Python's \<^verbatim>\<open>str\<close> on the two non-whole floats that the examples print.\<close>

definition sample_str_float :: "real \<Rightarrow> string" where
  "sample_str_float x = (if x = 2.5 then ''2.5'' else if x = 0.5 then ''0.5'' else [])"

text \<open>
  The order that the checkout of 2 kg of apples creates in the sample catalogue, its item,
  and the database after that checkout.
\<close>

definition sample_order :: order where
  "sample_order = \<lparr>o_id = 1, o_customer_name = ''Asha'', o_customer_email = None,
     o_customer_phone = ''5550100'', o_pickup_time = DateTime 2025 1 15 7 0,
     o_total_amount = 240, o_status = ''pending''\<rparr>"

definition sample_order_item :: order_item where
  "sample_order_item = \<lparr>oi_id = 1, oi_order_id = 1, oi_product_id = 1, oi_quantity = 2,
     oi_price = 120\<rparr>"

definition ordered_db :: database where
  "ordered_db = \<lparr>products = (hd sample_products)\<lparr>p_quantity_available := 38\<rparr> # tl sample_products,
     orders = [sample_order], order_items = [sample_order_item]\<rparr>"

text \<open>
  The product form with which the seller sets the stock of the apples to \<open>-1\<close>
  (\<^verbatim>\<open>float('-1')\<close> parses).
\<close>

definition negative_stock_form :: product_form where
  "negative_stock_form = \<lparr>pf_name = ''Fresh Apples'',
     pf_description = Some ''Crisp and juicy red apples, perfect for snacking.'',
     pf_price = 120, pf_original_price = Some 150, pf_quantity = - 1,
     pf_unit_type = ''kg'', pf_image = None\<rparr>"

text \<open>
  The sums as the code forms them, one float operation after the other: the total that
  the first loop of \<^verbatim>\<open>process_checkout\<close> accumulates over the cart lines, the same sum
  over order items, and the stock that is left of \<open>avail\<close> when the quantities of the
  cart's lines that resolve to product \<open>k\<close> have been taken from it in cart order.
\<close>

abbreviation line_total :: "real \<Rightarrow> cart_item list \<Rightarrow> real" where
  "line_total start cart \<equiv>
     foldl (\<lambda>acc line. fadd acc (fmul (ci_price line) (ci_quantity line))) start cart"

abbreviation item_total :: "order_item list \<Rightarrow> real" where
  "item_total rows \<equiv> foldl (\<lambda>acc i. fadd acc (fmul (oi_quantity i) (oi_price i))) 0 rows"

abbreviation stock_left ::
  "(string \<Rightarrow> nat option) \<Rightarrow> real \<Rightarrow> nat \<Rightarrow> cart_item list \<Rightarrow> real" where
  "stock_left text_key avail k cart \<equiv>
     foldl fsub avail
       (map ci_quantity (filter (\<lambda>line. resolve_id text_key (ci_product_id line) = Some k) cart))"

text \<open>No product row has a negative \<^verbatim>\<open>quantity_available\<close>.\<close>

abbreviation stock_nonneg :: "database \<Rightarrow> bool" where
  "stock_nonneg db \<equiv> \<forall>p \<in> set (products db). 0 \<le> p_quantity_available p"

section \<open>Properties of the float operations\<close>

lemma pow2_pos: "0 < pow2 k"
  by (simp add: pow2_def)

lemma round_half_even_nonneg: "0 \<le> x \<Longrightarrow> 0 \<le> round_half_even x"
  by (simp add: round_half_even_def Let_def)

lemma round_double_nonneg: "0 \<le> x \<Longrightarrow> 0 \<le> round_double x"
proof (cases "x = 0")
  case True
  then show ?thesis by (simp add: round_double_def)
next
  case False
  assume "0 \<le> x"
  with False have pos: "0 < x" by simp
  let ?ulp = "pow2 (max (float_exponent \<bar>x\<bar>) (- 1022) - 52)"
  have "0 \<le> \<bar>x\<bar> / ?ulp"
    using pow2_pos [of "max (float_exponent \<bar>x\<bar>) (- 1022) - 52"] by simp
  then have "0 \<le> round_half_even (\<bar>x\<bar> / ?ulp)"
    by (rule round_half_even_nonneg)
  then have "0 \<le> of_int (round_half_even (\<bar>x\<bar> / ?ulp)) * ?ulp"
    using pow2_pos [of "max (float_exponent \<bar>x\<bar>) (- 1022) - 52"] by simp
  then show ?thesis
    using pos False by (simp add: round_double_def Let_def)
qed

lemma fsub_nonneg: "b \<le> a \<Longrightarrow> 0 \<le> fsub a b"
  by (simp add: fsub_def round_double_nonneg)

lemma fmul_commute: "fmul a b = fmul b a"
  by (simp add: fmul_def mult.commute)

text \<open>
  Some values of the operations, as CPython computes them: \<^verbatim>\<open>0.1 + 0.2\<close> is
  \<^verbatim>\<open>0.30000000000000004\<close>, \<^verbatim>\<open>0.1 * 3\<close> is the same double, \<^verbatim>\<open>0.3 - 0.1\<close> is
  \<^verbatim>\<open>0.19999999999999998\<close>, and \<open>2 ^ 53 + 1\<close> is halfway between two doubles and goes to
  the even one.
\<close>

lemma float_rounding_examples:
  "fadd (py_float 0.1) (py_float 0.2) = 1351079888211149 / 4503599627370496"
  "fmul (py_float 0.1) 3 = 1351079888211149 / 4503599627370496"
  "fsub (py_float 0.3) (py_float 0.1) = 7205759403792793 / 36028797018963968"
  "py_float 9007199254740993 = 9007199254740992"
  by code_simp+

text \<open>The operations on the numbers of the sample data, computed.\<close>

lemma float_examples:
  "fmul 10 2 = 20" "fadd 0 20 = 20" "fmul 120 2 = 240" "fadd 0 240 = 240" "fsub 40 2 = 38"
  by code_simp+

section \<open>Properties of the cart\<close>

lemma add_loop_None:
  "(add_loop cart pid q a = None) = (pid \<notin> ci_product_id ` set cart)"
  by (induction cart) (auto simp: Let_def split: option.splits sum.splits)

lemma add_loop_Inl:
  "(add_loop cart pid q a = Some (Inl e)) =
   (e = InsufficientStock \<and> (\<exists>item. find (\<lambda>i. ci_product_id i = pid) cart = Some item \<and> fadd (ci_quantity item) q > a))"
  by (induction cart) (auto simp: Let_def split: option.splits sum.splits)

lemma add_loop_split:
  "pid \<notin> ci_product_id ` set xs \<Longrightarrow> ci_product_id item = pid \<Longrightarrow>
   \<not> fadd (ci_quantity item) q > a \<Longrightarrow>
   add_loop (xs @ item # ys) pid q a = Some (Inr (xs @ item\<lparr>ci_quantity := fadd (ci_quantity item) q\<rparr> # ys))"
  by (induction xs) (auto simp: Let_def)

lemma add_loop_ids:
  "add_loop cart pid q a = Some (Inr cart') \<Longrightarrow> map ci_product_id cart' = map ci_product_id cart"
  by (induction cart arbitrary: cart') (auto simp: Let_def split: option.splits sum.splits if_splits)

lemma find_split:
  "pid \<notin> ci_product_id ` set xs \<Longrightarrow> ci_product_id item = pid \<Longrightarrow>
   find (\<lambda>i. ci_product_id i = pid) (xs @ item # ys) = Some item"
  by (induction xs) auto

lemma find_None_ids:
  "(find (\<lambda>i. ci_product_id i = pid) cart = None) = (pid \<notin> ci_product_id ` set cart)"
  by (auto simp: find_None_iff)



lemma add_to_cart_unfold:
  assumes prod: "query_get tk db pid = Some product"
    and q: "q = (case qreq of None \<Rightarrow> 1 | Some r \<Rightarrow> r)"
    and cart: "cart = (case sess of None \<Rightarrow> [] | Some c \<Rightarrow> c)"
    and avail: "avail = p_quantity_available product"
  shows "add_to_cart tk db sess pid qreq =
      (if q > avail then (Inl InsufficientStock, sess)
       else case add_loop cart pid q avail of
              None \<Rightarrow> (Inr (Suc (length cart)),
                Some (cart @ [\<lparr>ci_product_id = pid, ci_quantity = q, ci_price = p_price product,
                             ci_name = p_name product, ci_image_path = p_image_path product,
                             ci_unit_type = p_unit_type product\<rparr>]))
            | Some (Inl e) \<Rightarrow> (Inl e, sess)
            | Some (Inr cart') \<Rightarrow> (Inr (length cart'), Some cart'))"
  unfolding add_to_cart_def q cart avail prod
  by (simp add: Let_def split: option.splits sum.splits)

subsection \<open>Adding to the cart\<close>

text \<open>
  Claim C5 says that \<^verbatim>\<open>add(product_id, requested_quantity)\<close> fails with
  \<open>InsufficientStock\<close> when the cart already has a line for the product and the merged
  quantity exceeds the stock, and that the cart never holds two lines for one product.
  The route finds the product through the database, which resolves \<^verbatim>\<open>"1"\<close> and \<^verbatim>\<open>1\<close>
  to the same row, but looks for the line \<^verbatim>\<open># Check if item already in cart\<close> with
  \<^verbatim>\<open>==\<close> on the raw values (line 339), and \<^verbatim>\<open>"1" == 1\<close> is false. So on the sample
  catalogue (40 kg of apples): adding 2 kg with \<^verbatim>\<open>product_id\<close> \<^verbatim>\<open>"1"\<close> makes a line, and
  adding 39 kg with \<^verbatim>\<open>product_id\<close> \<^verbatim>\<open>1\<close> then succeeds and appends a second line for the
  apples, although the merged quantity 41 exceeds the stock of 40.
\<close>

theorem add_to_cart_second_line_for_one_product:
  "query_get sample_text_key sample_db (StrId ''1'') = Some (sample_products ! 0)
   \<and> query_get sample_text_key sample_db (IntId 1) = Some (sample_products ! 0)
   \<and> p_quantity_available (sample_products ! 0) = 40
   \<and> add_to_cart sample_text_key sample_db None (StrId ''1'') (Some 2)
        = (Inr 1, Some [apples_line\<lparr>ci_product_id := StrId ''1''\<rparr>])
   \<and> fadd 2 39 = 41
   \<and> add_to_cart sample_text_key sample_db (Some [apples_line\<lparr>ci_product_id := StrId ''1''\<rparr>])
          (IntId 1) (Some 39)
        = (Inr 2, Some [apples_line\<lparr>ci_product_id := StrId ''1''\<rparr>,
                        apples_line\<lparr>ci_quantity := 39\<rparr>])"
proof -
  have sum: "fadd 2 39 = 41"
    by code_simp
  show ?thesis
    by (simp add: sum add_to_cart_def query_get_def resolve_id_def query_get_def resolve_id_def get_product_def
        sample_text_key_def sample_db_def sample_products_def apples_line_def)
qed

text \<open>
  What the route does in general, for a request whose \<^verbatim>\<open>product_id\<close> resolves to a
  product: it fails with \<open>InsufficientStock\<close> exactly when the requested quantity
  exceeds the product's current \<^verbatim>\<open>quantity_available\<close>, or the cart has a line with an
  equal raw \<^verbatim>\<open>product_id\<close> and the float sum of that line's quantity and the requested
  one exceeds it; a failure leaves the session cart as it was. On success it appends a
  new line with the product's current price, name, image and unit type when no line has
  an equal raw \<^verbatim>\<open>product_id\<close>, and otherwise sums the quantities in the first such line;
  the raw ids of the lines stay pairwise different when they were. Here \<open>q\<close> is the
  requested quantity (1 when the request names none) and \<open>cart\<close> the session's cart
  (empty when the session has none).
\<close>

lemma add_to_cart_by_raw_id:
  assumes prod: "query_get tk db pid = Some product"
    and q: "q = (case qreq of None \<Rightarrow> 1 | Some r \<Rightarrow> r)"
    and cart: "cart = (case sess of None \<Rightarrow> [] | Some c \<Rightarrow> c)"
    and avail: "avail = p_quantity_available product"
  shows
   "(fst (add_to_cart tk db sess pid qreq) = Inl InsufficientStock \<longleftrightarrow>
       q > avail \<or> (\<exists>item. find (\<lambda>i. ci_product_id i = pid) cart = Some item
                          \<and> fadd (ci_quantity item) q > avail))
    \<and> (\<forall>e. fst (add_to_cart tk db sess pid qreq) = Inl e \<longrightarrow>
          e = InsufficientStock \<and> snd (add_to_cart tk db sess pid qreq) = sess)
    \<and> (q \<le> avail \<longrightarrow> pid \<notin> ci_product_id ` set cart \<longrightarrow>
          add_to_cart tk db sess pid qreq =
            (Inr (Suc (length cart)),
             Some (cart @ [\<lparr>ci_product_id = pid, ci_quantity = q, ci_price = p_price product,
                             ci_name = p_name product, ci_image_path = p_image_path product,
                             ci_unit_type = p_unit_type product\<rparr>])))
    \<and> (q \<le> avail \<longrightarrow> cart = xs @ line # ys \<longrightarrow> pid \<notin> ci_product_id ` set xs \<longrightarrow>
          ci_product_id line = pid \<longrightarrow> fadd (ci_quantity line) q \<le> avail \<longrightarrow>
          add_to_cart tk db sess pid qreq =
            (Inr (length cart), Some (xs @ line\<lparr>ci_quantity := fadd (ci_quantity line) q\<rparr> # ys)))
    \<and> (distinct (map ci_product_id cart) \<longrightarrow>
          add_to_cart tk db sess pid qreq = (Inr n, Some cart'') \<longrightarrow>
          distinct (map ci_product_id cart''))"
proof -
  note unfold = add_to_cart_unfold [OF prod q cart avail]
  let ?P = "\<lambda>i. ci_product_id i = pid"
  let ?exceeds = "q > avail \<or> (\<exists>item. find ?P cart = Some item \<and> fadd (ci_quantity item) q > avail)"
  show ?thesis
  proof (cases "q > avail")
    case True
    then show ?thesis by (simp add: unfold)
  next
    case small: False
    show ?thesis
    proof (cases "add_loop cart pid q avail")
      case None
      then have absent: "pid \<notin> ci_product_id ` set cart"
        by (simp add: add_loop_None)
      then have nofind: "find ?P cart = None"
        by (simp add: find_None_ids)
      have res: "add_to_cart tk db sess pid qreq =
            (Inr (Suc (length cart)),
             Some (cart @ [\<lparr>ci_product_id = pid, ci_quantity = q, ci_price = p_price product,
                             ci_name = p_name product, ci_image_path = p_image_path product,
                             ci_unit_type = p_unit_type product\<rparr>]))"
        using small None by (simp add: unfold)
      have c4: "\<And>xs item ys. cart = xs @ item # ys \<Longrightarrow> ci_product_id item = pid \<Longrightarrow> False"
        using absent by auto
      have c5: "distinct (map ci_product_id cart) \<Longrightarrow>
           distinct (map ci_product_id (cart @ [\<lparr>ci_product_id = pid, ci_quantity = q,
              ci_price = p_price product, ci_name = p_name product,
              ci_image_path = p_image_path product, ci_unit_type = p_unit_type product\<rparr>]))"
        using absent by auto
      show ?thesis
        using small nofind c4 c5 by (auto simp: res)
    next
      case (Some r)
      show ?thesis
      proof (cases r)
        case (Inl e)
        with Some have loop: "add_loop cart pid q avail = Some (Inl e)" by simp
        then have e: "e = InsufficientStock"
          and ex: "\<exists>item. find ?P cart = Some item \<and> fadd (ci_quantity item) q > avail"
          by (simp_all add: add_loop_Inl)
        have res: "add_to_cart tk db sess pid qreq = (Inl InsufficientStock, sess)"
          using small loop e by (simp add: unfold)
        from ex obtain item where it: "find ?P cart = Some item" "fadd (ci_quantity item) q > avail"
          by blast
        have present: "pid \<in> ci_product_id ` set cart"
          using it(1) find_None_ids [of pid cart] by auto
        have c4: "\<And>xs item' ys. cart = xs @ item' # ys \<Longrightarrow> pid \<notin> ci_product_id ` set xs \<Longrightarrow>
            ci_product_id item' = pid \<Longrightarrow> fadd (ci_quantity item') q \<le> avail \<Longrightarrow> False"
          using it by (simp add: find_split)
        show ?thesis
          using ex present c4 by (auto simp: res)
      next
        case (Inr cart')
        with Some have loop: "add_loop cart pid q avail = Some (Inr cart')" by simp
        have res: "add_to_cart tk db sess pid qreq = (Inr (length cart'), Some cart')"
          using small loop by (simp add: unfold)
        have ids: "map ci_product_id cart' = map ci_product_id cart"
          using loop by (rule add_loop_ids)
        have noex: "\<not> (\<exists>item. find ?P cart = Some item \<and> fadd (ci_quantity item) q > avail)"
          using loop add_loop_Inl [of cart pid q avail InsufficientStock] by simp
        have present: "pid \<in> ci_product_id ` set cart"
          using loop add_loop_None [of cart pid q avail] by auto
        have c4: "\<And>xs item ys. cart = xs @ item # ys \<Longrightarrow> pid \<notin> ci_product_id ` set xs \<Longrightarrow>
            ci_product_id item = pid \<Longrightarrow> fadd (ci_quantity item) q \<le> avail \<Longrightarrow>
            cart' = xs @ item\<lparr>ci_quantity := fadd (ci_quantity item) q\<rparr> # ys"
          using loop by (simp add: add_loop_split)
        have len: "length cart' = length cart"
          using ids by (metis length_map)
        show ?thesis
          using small noex present c4 ids len by (auto simp: res)
      qed
    qed
  qed
qed

subsection \<open>Updating a cart line\<close>






subsection \<open>Removing from the cart\<close>




section \<open>Properties of the checkout\<close>

lemma validate_cart_error:
  "validate_cart tk db cart t = Inl e \<Longrightarrow> e = OutOfStock"
  by (induction cart arbitrary: t) (auto split: option.splits if_splits)

lemma validate_cart_bad:
  "line \<in> set cart \<Longrightarrow>
   (case query_get tk db (ci_product_id line) of
      None \<Rightarrow> True
    | Some p \<Rightarrow> p_quantity_available p \<le> 0 \<or> ci_quantity line > p_quantity_available p) \<Longrightarrow>
   validate_cart tk db cart t = Inl OutOfStock"
  by (induction cart arbitrary: t) (auto split: option.splits)

lemma validate_cart_ok:
  "\<forall>line \<in> set cart.
     (case query_get tk db (ci_product_id line) of
        None \<Rightarrow> False
      | Some p \<Rightarrow> 0 < p_quantity_available p \<and> ci_quantity line \<le> p_quantity_available p) \<Longrightarrow>
   validate_cart tk db cart t = Inr (line_total t cart)"
  by (induction cart arbitrary: t) (auto split: option.splits)

lemma validate_cart_Inr:
  "validate_cart tk db cart t = Inr r \<Longrightarrow>
   r = line_total t cart
   \<and> (\<forall>line \<in> set cart. \<exists>p. query_get tk db (ci_product_id line) = Some p
          \<and> 0 < p_quantity_available p \<and> ci_quantity line \<le> p_quantity_available p)"
proof (induction cart arbitrary: t)
  case Nil
  then show ?case by simp
next
  case (Cons line rest)
  from Cons.prems obtain p where
    p: "query_get tk db (ci_product_id line) = Some p" "0 < p_quantity_available p"
       "ci_quantity line \<le> p_quantity_available p"
    and rest: "validate_cart tk db rest (fadd t (fmul (ci_price line) (ci_quantity line))) = Inr r"
    by (auto split: option.splits if_splits)
  from Cons.IH [OF rest] p show ?case by auto
qed

lemma fold_max_ge: "a \<le> fold max ids (a::nat)"
  by (induction ids arbitrary: a) (auto intro: order_trans [OF max.cobounded2])

lemma fold_max_mem: "i \<in> set ids \<Longrightarrow> i \<le> fold max ids (a::nat)"
proof (induction ids arbitrary: a)
  case Nil
  then show ?case by simp
next
  case (Cons x xs)
  show ?case
  proof (cases "i = x")
    case True
    have "x \<le> max x a" by simp
    also have "\<dots> \<le> fold max xs (max x a)" by (rule fold_max_ge)
    finally show ?thesis using True by simp
  next
    case False
    with Cons show ?thesis by simp
  qed
qed

lemma fresh_id_gt: "i \<in> set ids \<Longrightarrow> i < fresh_id ids"
  by (simp add: fresh_id_def fold_max_mem less_Suc_eq_le)

lemma query_get_Some:
  "query_get tk db rid = Some p \<Longrightarrow> \<exists>k. resolve_id tk rid = Some k \<and> get_product db k = Some p"
  by (auto simp: query_get_def split: option.splits)

lemma commit_items_orders: "orders (commit_items tk oid cart db) = orders db"
  by (induction cart arbitrary: db) (auto simp: commit_item_def split: option.splits)

lemma commit_items_order_items:
  assumes "\<forall>line \<in> set cart. resolve_id tk (ci_product_id line) \<noteq> None"
  shows "\<exists>new. order_items (commit_items tk oid cart db) = order_items db @ new
     \<and> map (\<lambda>i. (oi_order_id i, Some (oi_product_id i), oi_quantity i, oi_price i)) new
         = map (\<lambda>line. (oid, resolve_id tk (ci_product_id line), ci_quantity line, ci_price line))
             cart"
  using assms
proof (induction cart arbitrary: db)
  case Nil
  then show ?case by simp
next
  case (Cons line rest)
  from Cons.prems obtain k where k: "resolve_id tk (ci_product_id line) = Some k"
    by auto
  from Cons.prems have rest: "\<forall>line \<in> set rest. resolve_id tk (ci_product_id line) \<noteq> None"
    by simp
  from Cons.IH [OF rest, of "commit_item tk oid line db"] obtain new where
    new: "order_items (commit_items tk oid rest (commit_item tk oid line db))
            = order_items (commit_item tk oid line db) @ new"
      "map (\<lambda>i. (oi_order_id i, Some (oi_product_id i), oi_quantity i, oi_price i)) new
         = map (\<lambda>line. (oid, resolve_id tk (ci_product_id line), ci_quantity line, ci_price line))
             rest"
    by blast
  let ?row = "\<lparr>oi_id = fresh_id (map oi_id (order_items db)), oi_order_id = oid,
            oi_product_id = k, oi_quantity = ci_quantity line,
            oi_price = ci_price line\<rparr>"
  have "order_items (commit_items tk oid (line # rest) db) = order_items db @ (?row # new)"
    using new(1) by (simp add: commit_item_def k)
  moreover have
    "map (\<lambda>i. (oi_order_id i, Some (oi_product_id i), oi_quantity i, oi_price i)) (?row # new)
       = map (\<lambda>line. (oid, resolve_id tk (ci_product_id line), ci_quantity line, ci_price line))
           (line # rest)"
    using new(2) by (simp add: k)
  ultimately show ?case by blast
qed

lemma commit_items_products:
  "products (commit_items tk oid cart db) =
     map (\<lambda>p. p\<lparr>p_quantity_available := stock_left tk (p_quantity_available p) (p_id p) cart\<rparr>)
         (products db)"
proof (induction cart arbitrary: db)
  case Nil
  then show ?case by (simp add: map_idI)
next
  case (Cons line rest)
  show ?case
    by (cases "resolve_id tk (ci_product_id line)")
      (simp_all add: Cons commit_item_def comp_def cong: map_cong)
qed

lemma process_checkout_gates:
  assumes "cart \<noteq> []"
    and "truthy (customer_name form) = Some name"
    and "truthy (customer_phone form) = Some phone"
    and "truthy (pickup_date form) = Some date"
    and "truthy (pickup_time_slot form) = Some slot"
    and "strptime (date @ '' '' @ slot) = Some t"
  shows "process_checkout tk strptime form db (Some cart) =
     (case validate_cart tk db cart 0 of
        Inl e \<Rightarrow> (Inl e, db, Some cart)
      | Inr total_acc \<Rightarrow>
          (Inr (fresh_id (map o_id (orders db))),
           commit_items tk (fresh_id (map o_id (orders db))) cart
             (db\<lparr>orders := orders db @
                [\<lparr>o_id = fresh_id (map o_id (orders db)), o_customer_name = name,
                  o_customer_email = truthy (customer_email form), o_customer_phone = phone,
                  o_pickup_time = t, o_total_amount = total_acc, o_status = ''pending''\<rparr>]\<rparr>),
           None))"
  using assms by (simp add: process_checkout_def Let_def split: sum.splits)

lemma process_checkout_error:
  "process_checkout tk strptime form db sess = (Inl e, db', sess') \<Longrightarrow> db' = db \<and> sess' = sess"
  by (auto simp: process_checkout_def Let_def split: option.splits sum.splits if_splits)

lemma find_map_same_key:
  "(\<And>x. key (f x) = key x) \<Longrightarrow> find (\<lambda>x. key x = k) (map f xs) = map_option f (find (\<lambda>x. key x = k) xs)"
  by (induction xs) auto

lemma filter_distinct_key:
  "distinct (map key xs) \<Longrightarrow> x \<in> set xs \<Longrightarrow> filter (\<lambda>y. key y = key x) xs = [x]"
proof (induction xs)
  case Nil
  then show ?case by simp
next
  case (Cons a xs)
  show ?case
  proof (cases "a = x")
    case True
    have "\<forall>y \<in> set xs. key y \<noteq> key x"
    proof
      fix y
      assume "y \<in> set xs"
      then have "key y \<in> key ` set xs" by (rule imageI)
      moreover have "key x \<notin> key ` set xs" using Cons.prems(1) True by simp
      ultimately show "key y \<noteq> key x" by metis
    qed
    then have "filter (\<lambda>y. key y = key x) xs = []"
      by (simp add: filter_empty_conv)
    then show ?thesis using True by simp
  next
    case False
    then have "x \<in> set xs" using Cons.prems(2) by simp
    moreover have "key a \<noteq> key x"
      using Cons.prems(1) calculation by auto
    ultimately show ?thesis using Cons by simp
  qed
qed

lemma find_distinct_key:
  "distinct (map key xs) \<Longrightarrow> x \<in> set xs \<Longrightarrow> find (\<lambda>y. key y = key x) xs = Some x"
  by (induction xs) auto

subsection \<open>A line that fails the stock re-check\<close>

text \<open>
  Claim C1. If any line of a submitted cart refers to a product that no longer exists,
  or whose \<^verbatim>\<open>quantity_available\<close> is \<open>\<le> 0\<close>, or whose quantity exceeds the product's
  current \<^verbatim>\<open>quantity_available\<close>, then \<^verbatim>\<open>process_checkout\<close> fails and the durable
  state is unchanged: the database after the request is the database before it (no
  \<^verbatim>\<open>Order\<close> row, no \<^verbatim>\<open>OrderItem\<close> row, no stock decrement), and the cart is kept.
  The failure is \<open>OutOfStock\<close> whenever the request reaches the stock re-check, that
  is, whenever the required fields are filled and the pickup time parses (an earlier
  gate answers with its own error, also without touching the database).
\<close>

theorem checkout_rejects_unavailable_line:
  assumes line: "line \<in> set cart"
    and bad: "case query_get tk db (ci_product_id line) of
                None \<Rightarrow> True
              | Some p \<Rightarrow> p_quantity_available p \<le> 0 \<or> ci_quantity line > p_quantity_available p"
  shows "(\<exists>e. process_checkout tk strptime form db (Some cart) = (Inl e, db, Some cart))
    \<and> (truthy (customer_name form) = Some name \<longrightarrow> truthy (customer_phone form) = Some phone \<longrightarrow>
        truthy (pickup_date form) = Some date \<longrightarrow> truthy (pickup_time_slot form) = Some slot \<longrightarrow>
        strptime (date @ '' '' @ slot) = Some t \<longrightarrow>
        process_checkout tk strptime form db (Some cart) = (Inl OutOfStock, db, Some cart))"
proof -
  have stock: "validate_cart tk db cart 0 = Inl OutOfStock"
    using line bad by (rule validate_cart_bad)
  have nonempty: "cart \<noteq> []"
    using line by auto
  have fails: "\<exists>e. process_checkout tk strptime form db (Some cart) = (Inl e, db, Some cart)"
    using nonempty stock
    by (simp add: process_checkout_def split: option.splits)
  have kind: "process_checkout tk strptime form db (Some cart) = (Inl OutOfStock, db, Some cart)"
    if "truthy (customer_name form) = Some name" "truthy (customer_phone form) = Some phone"
       "truthy (pickup_date form) = Some date" "truthy (pickup_time_slot form) = Some slot"
       "strptime (date @ '' '' @ slot) = Some t"
    using process_checkout_gates [where strptime = strptime and tk = tk, OF nonempty that] stock by simp
  show ?thesis using fails kind by blast
qed



theorem checkout_rejects_unavailable_line_witness:
  "apples_line \<in> set [bread_line, apples_line]
   \<and> map_option p_quantity_available
        (query_get sample_text_key (snd (mark_out_of_stock 1 sample_db))
           (ci_product_id apples_line)) = Some 0
   \<and> process_checkout sample_text_key sample_strptime sample_form (snd (mark_out_of_stock 1 sample_db))
        (Some [bread_line, apples_line])
      = (Inl OutOfStock, snd (mark_out_of_stock 1 sample_db), Some [bread_line, apples_line])"
proof -
  let ?db = "snd (mark_out_of_stock 1 sample_db)"
  have mem: "apples_line \<in> set [bread_line, apples_line]"
    by simp
  have stock: "query_get sample_text_key ?db (ci_product_id apples_line)
      = Some ((sample_products ! 0)\<lparr>p_quantity_available := 0\<rparr>)"
    by (simp add: mark_out_of_stock_def query_get_def resolve_id_def get_product_def sample_db_def sample_products_def
        apples_line_def)
  have bad: "case query_get sample_text_key ?db (ci_product_id apples_line) of
                None \<Rightarrow> True
              | Some p \<Rightarrow> p_quantity_available p \<le> 0
                  \<or> ci_quantity apples_line > p_quantity_available p"
    by (simp add: mark_out_of_stock_def query_get_def resolve_id_def get_product_def sample_db_def sample_products_def
        apples_line_def)
  have gates: "truthy (customer_name sample_form) = Some ''Asha''"
    "truthy (customer_phone sample_form) = Some ''5550100''"
    "truthy (pickup_date sample_form) = Some ''2025-01-15''"
    "truthy (pickup_time_slot sample_form) = Some ''7:00 AM''"
    "sample_strptime (''2025-01-15'' @ '' '' @ ''7:00 AM'') = Some (DateTime 2025 1 15 7 0)"
    by (simp_all add: truthy_def sample_form_def sample_strptime_def)
  show ?thesis
    using checkout_rejects_unavailable_line [OF mem bad, where strptime = sample_strptime
        and form = sample_form and name = "''Asha''" and phone = "''5550100''"
        and date = "''2025-01-15''" and slot = "''7:00 AM''" and t = "DateTime 2025 1 15 7 0"]
      gates
    by (simp add: stock del: One_nat_def)
qed

subsection \<open>A checkout that succeeds\<close>

text \<open>
  Claim C2. A checkout with a non-empty cart, filled customer fields, a pickup time that
  parses and every line passing the stock re-check succeeds: exactly one \<^verbatim>\<open>Order\<close> row
  is appended, with a fresh id, status \<^verbatim>\<open>'pending'\<close> and \<^verbatim>\<open>total_amount\<close> the sum of the
  line subtotals (snapshot price times quantity, added in cart order); exactly one \<^verbatim>\<open>OrderItem\<close> row per
  cart line is appended, in cart order, with the order's id, the id of the product that
  the line resolves to, and the line's quantity and frozen price; every product's
  \<^verbatim>\<open>quantity_available\<close> goes down by the quantities of the cart's lines for it (by the
  line's quantity, when the lines resolve to pairwise different products); and the
  session cart is cleared. Hence the sum of quantity times price
  over the new items, added in the same order, equals the order's \<^verbatim>\<open>total_amount\<close>,
  and the new items are the items of the order when every older item belongs to an
  existing order.
\<close>

theorem checkout_commits_order:
  assumes nonempty: "cart \<noteq> []"
    and name: "truthy (customer_name form) = Some name"
    and phone: "truthy (customer_phone form) = Some phone"
    and date: "truthy (pickup_date form) = Some date"
    and slot: "truthy (pickup_time_slot form) = Some slot"
    and time: "strptime (date @ '' '' @ slot) = Some t"
    and stock: "\<forall>line \<in> set cart.
        (case query_get tk db (ci_product_id line) of
           None \<Rightarrow> False
         | Some p \<Rightarrow> 0 < p_quantity_available p \<and> ci_quantity line \<le> p_quantity_available p)"
  shows "\<exists>oid db' new.
      process_checkout tk strptime form db (Some cart) = (Inr oid, db', None)
    \<and> oid \<notin> o_id ` set (orders db)
    \<and> orders db' = orders db @
         [\<lparr>o_id = oid, o_customer_name = name, o_customer_email = truthy (customer_email form),
           o_customer_phone = phone, o_pickup_time = t,
           o_total_amount = line_total 0 cart,
           o_status = ''pending''\<rparr>]
    \<and> order_items db' = order_items db @ new
    \<and> map (\<lambda>i. (oi_order_id i, Some (oi_product_id i), oi_quantity i, oi_price i)) new
        = map (\<lambda>line. (oid, resolve_id tk (ci_product_id line), ci_quantity line, ci_price line)) cart
    \<and> (\<forall>k. get_product db' k = map_option
          (\<lambda>p. p\<lparr>p_quantity_available := stock_left tk (p_quantity_available p) k cart\<rparr>)
          (get_product db k))
    \<and> (distinct (map (\<lambda>line. resolve_id tk (ci_product_id line)) cart) \<longrightarrow>
         (\<forall>line \<in> set cart. \<exists>p. query_get tk db (ci_product_id line) = Some p
            \<and> query_get tk db' (ci_product_id line)
                = Some (p\<lparr>p_quantity_available := fsub (p_quantity_available p) (ci_quantity line)\<rparr>)))
    \<and> item_total new
        = line_total 0 cart
    \<and> (oi_order_id ` set (order_items db) \<subseteq> o_id ` set (orders db) \<longrightarrow>
         filter (\<lambda>i. oi_order_id i = oid) (order_items db') = new)"
proof -
  define oid where "oid = fresh_id (map o_id (orders db))"
  define total_acc where "total_acc = line_total 0 cart"
  define ord where "ord = \<lparr>o_id = oid, o_customer_name = name,
      o_customer_email = truthy (customer_email form), o_customer_phone = phone,
      o_pickup_time = t, o_total_amount = total_acc, o_status = ''pending''\<rparr>"
  define db1 where "db1 = db\<lparr>orders := orders db @ [ord]\<rparr>"
  define db' where "db' = commit_items tk oid cart db1"
  let ?dec = "\<lambda>k p. p\<lparr>p_quantity_available := stock_left tk (p_quantity_available p) k cart\<rparr>"
  have valid: "validate_cart tk db cart 0 = Inr total_acc"
    using validate_cart_ok [OF stock, of 0] by (simp add: total_acc_def)
  have result: "process_checkout tk strptime form db (Some cart) = (Inr oid, db', None)"
    using process_checkout_gates [where strptime = strptime and tk = tk, OF nonempty name phone date slot time]
      valid
    by (simp add: oid_def db'_def db1_def ord_def)
  have fresh: "oid \<notin> o_id ` set (orders db)"
    using fresh_id_gt [of _ "map o_id (orders db)"] by (auto simp: oid_def)
  have ords: "orders db' = orders db @ [ord]"
    by (simp add: db'_def commit_items_orders db1_def)
  obtain new where new: "order_items db' = order_items db @ new"
      "map (\<lambda>i. (oi_order_id i, Some (oi_product_id i), oi_quantity i, oi_price i)) new
        = map (\<lambda>line. (oid, resolve_id tk (ci_product_id line), ci_quantity line, ci_price line)) cart"
  proof -
    have "\<forall>line \<in> set cart. resolve_id tk (ci_product_id line) \<noteq> None"
      using stock by (auto simp: query_get_def split: option.splits)
    from commit_items_order_items [OF this, of oid db1] that show ?thesis
      by (auto simp: db'_def db1_def)
  qed
  have prods: "products db' = map (\<lambda>p. ?dec (p_id p) p) (products db)"
    by (simp add: db'_def commit_items_products db1_def)
  have get: "get_product db' k = map_option (?dec k) (get_product db k)" for k
  proof -
    have "find (\<lambda>p. p_id p = k) (map (\<lambda>p. ?dec (p_id p) p) (products db))
        = map_option (\<lambda>p. ?dec (p_id p) p) (find (\<lambda>p. p_id p = k) (products db))"
      by (rule find_map_same_key) simp
    also have "\<dots> = map_option (?dec k) (find (\<lambda>p. p_id p = k) (products db))"
      by (cases "find (\<lambda>p. p_id p = k) (products db)") (auto dest: find_Some_iff [THEN iffD1])
    finally show ?thesis by (simp add: query_get_def resolve_id_def get_product_def prods)
  qed
  have single: "distinct (map (\<lambda>line. resolve_id tk (ci_product_id line)) cart) \<longrightarrow>
         (\<forall>line \<in> set cart. \<exists>p. query_get tk db (ci_product_id line) = Some p
            \<and> query_get tk db' (ci_product_id line)
                = Some (p\<lparr>p_quantity_available := fsub (p_quantity_available p) (ci_quantity line)\<rparr>))"
  proof (intro impI ballI)
    fix line
    assume dist: "distinct (map (\<lambda>line. resolve_id tk (ci_product_id line)) cart)"
      and mem: "line \<in> set cart"
    from stock mem obtain p where p: "query_get tk db (ci_product_id line) = Some p"
      by (auto split: option.splits)
    then obtain k where k: "resolve_id tk (ci_product_id line) = Some k" "get_product db k = Some p"
      by (auto dest: query_get_Some)
    have "filter (\<lambda>l. resolve_id tk (ci_product_id l) = resolve_id tk (ci_product_id line)) cart
        = [line]"
      using filter_distinct_key [where key = "\<lambda>l. resolve_id tk (ci_product_id l)", OF dist mem] .
    then have one: "filter (\<lambda>l. resolve_id tk (ci_product_id l) = Some k) cart = [line]"
      by (simp add: k)
    have "query_get tk db' (ci_product_id line)
        = Some (p\<lparr>p_quantity_available := fsub (p_quantity_available p) (ci_quantity line)\<rparr>)"
      by (simp add: query_get_def k get one)
    then show "\<exists>p. query_get tk db (ci_product_id line) = Some p
            \<and> query_get tk db' (ci_product_id line)
                = Some (p\<lparr>p_quantity_available := fsub (p_quantity_available p) (ci_quantity line)\<rparr>)"
      using p by simp
  qed
  have subtotal: "item_total new
        = line_total 0 cart"
  proof -
    have "item_total new
        = foldl (\<lambda>acc (_, _, q, pr). fadd acc (fmul q pr)) 0
            (map (\<lambda>i. (oi_order_id i, Some (oi_product_id i), oi_quantity i, oi_price i)) new)"
      by (simp add: foldl_map)
    also have "\<dots> = foldl (\<lambda>acc line. fadd acc (fmul (ci_quantity line) (ci_price line))) 0 cart"
      by (simp add: new(2) foldl_map)
    also have "\<dots> = line_total 0 cart"
      by (simp add: fmul_commute [of "ci_quantity _"])
    finally show ?thesis .
  qed
  have own: "oi_order_id ` set (order_items db) \<subseteq> o_id ` set (orders db) \<longrightarrow>
         filter (\<lambda>i. oi_order_id i = oid) (order_items db') = new"
  proof
    assume fk: "oi_order_id ` set (order_items db) \<subseteq> o_id ` set (orders db)"
    have old: "filter (\<lambda>i. oi_order_id i = oid) (order_items db) = []"
      using fk fresh by (auto simp: filter_empty_conv)
    have "map oi_order_id new = map (\<lambda>_. oid) cart"
      using arg_cong [OF new(2), of "map fst"] by (simp add: comp_def)
    then have "set (map oi_order_id new) \<subseteq> {oid}"
      by auto
    then have "filter (\<lambda>i. oi_order_id i = oid) new = new"
      by (auto simp: filter_id_conv)
    then show "filter (\<lambda>i. oi_order_id i = oid) (order_items db') = new"
      using old by (simp add: new(1))
  qed
  have ords': "orders db' = orders db @
         [\<lparr>o_id = oid, o_customer_name = name, o_customer_email = truthy (customer_email form),
           o_customer_phone = phone, o_pickup_time = t,
           o_total_amount = line_total 0 cart,
           o_status = ''pending''\<rparr>]"
    using ords by (simp add: ord_def total_acc_def)
  have get': "\<forall>k. get_product db' k = map_option (?dec k) (get_product db k)"
    using get by blast
  show ?thesis
    by (rule exI [of _ oid], rule exI [of _ db'], rule exI [of _ new], intro conjI)
      (rule result fresh ords' new get' single subtotal own)+
qed

theorem checkout_commits_order_witness:
  "\<exists>oid db'. process_checkout sample_text_key sample_strptime sample_form sample_db
          (Some [apples_line\<lparr>ci_price := 10\<rparr>]) = (Inr oid, db', None)
     \<and> map o_total_amount (orders db') = [20]
     \<and> map o_status (orders db') = [''pending'']
     \<and> length (order_items db') = 1
     \<and> map_option p_quantity_available (get_product db' 1) = Some 38"
proof -
  let ?cart = "[apples_line\<lparr>ci_price := 10\<rparr>]"
  have get: "get_product sample_db 1 = Some (sample_products ! 0)"
    by (simp add: query_get_def resolve_id_def get_product_def sample_db_def sample_products_def)
  have stock: "\<forall>line \<in> set ?cart.
        (case query_get sample_text_key sample_db (ci_product_id line) of
           None \<Rightarrow> False
         | Some p \<Rightarrow> 0 < p_quantity_available p \<and> ci_quantity line \<le> p_quantity_available p)"
    by (simp add: apples_line_def query_get_def resolve_id_def get_product_def sample_db_def sample_products_def)
  have gates: "?cart \<noteq> []"
    "truthy (customer_name sample_form) = Some ''Asha''"
    "truthy (customer_phone sample_form) = Some ''5550100''"
    "truthy (pickup_date sample_form) = Some ''2025-01-15''"
    "truthy (pickup_time_slot sample_form) = Some ''7:00 AM''"
    "sample_strptime (''2025-01-15'' @ '' '' @ ''7:00 AM'') = Some (DateTime 2025 1 15 7 0)"
    by (simp_all add: truthy_def sample_form_def sample_strptime_def)
  from checkout_commits_order [where strptime = sample_strptime, OF gates stock]
  obtain oid db' new where
    res: "process_checkout sample_text_key sample_strptime sample_form sample_db (Some ?cart) = (Inr oid, db', None)"
    and ords: "orders db' = orders sample_db @
         [\<lparr>o_id = oid, o_customer_name = ''Asha'',
           o_customer_email = truthy (customer_email sample_form),
           o_customer_phone = ''5550100'', o_pickup_time = DateTime 2025 1 15 7 0,
           o_total_amount = line_total 0 ?cart,
           o_status = ''pending''\<rparr>]"
    and items: "order_items db' = order_items sample_db @ new"
    and new: "map (\<lambda>i. (oi_order_id i, Some (oi_product_id i), oi_quantity i, oi_price i)) new
        = map (\<lambda>line. (oid, resolve_id sample_text_key (ci_product_id line), ci_quantity line, ci_price line)) ?cart"
    and prod: "\<forall>k. get_product db' k = map_option
          (\<lambda>p. p\<lparr>p_quantity_available :=
                  stock_left sample_text_key (p_quantity_available p) k ?cart\<rparr>)
          (get_product sample_db k)"
    by blast
  have total: "map o_total_amount (orders db') = [20]"
    by (simp add: ords sample_db_def apples_line_def float_examples)
  have status: "map o_status (orders db') = [''pending'']"
    by (simp add: ords sample_db_def)
  have "length new = length ?cart"
    using arg_cong [OF new, of length] by simp
  then have count: "length (order_items db') = 1"
    by (simp add: items sample_db_def)
  have left: "map_option p_quantity_available (get_product db' 1) = Some 38"
    by (simp add: prod get resolve_id_def apples_line_def sample_products_def float_examples
        del: One_nat_def)
  show ?thesis
    by (rule exI [of _ oid], rule exI [of _ db'], intro conjI)
      (rule res total status count left)+
qed

section \<open>Properties of the stock\<close>

lemma process_checkout_success:
  assumes "process_checkout tk strptime form db sess = (Inr oid, db', sess')"
  shows "\<exists>cart tot ord. sess = Some cart \<and> sess' = None
      \<and> validate_cart tk db cart 0 = Inr tot
      \<and> oid = fresh_id (map o_id (orders db)) \<and> o_id ord = oid
      \<and> db' = commit_items tk oid cart (db\<lparr>orders := orders db @ [ord]\<rparr>)"
proof -
  from assms obtain cart where cart: "sess = Some cart" "cart \<noteq> []"
    by (auto simp: process_checkout_def split: option.splits if_splits)
  from assms cart obtain name phone date slot where
    f: "truthy (customer_name form) = Some name" "truthy (customer_phone form) = Some phone"
       "truthy (pickup_date form) = Some date" "truthy (pickup_time_slot form) = Some slot"
    by (auto simp: process_checkout_def split: option.splits)
  from assms cart f obtain t where t: "strptime (date @ '' '' @ slot) = Some t"
    by (auto simp: process_checkout_def split: option.splits)
  note eq = process_checkout_gates [where strptime = strptime and tk = tk, OF cart(2) f t, of db]
  from assms cart eq obtain tot where tot: "validate_cart tk db cart 0 = Inr tot"
    by (cases "validate_cart tk db cart 0") auto
  let ?ord = "\<lparr>o_id = fresh_id (map o_id (orders db)), o_customer_name = name,
      o_customer_email = truthy (customer_email form), o_customer_phone = phone,
      o_pickup_time = t, o_total_amount = tot, o_status = ''pending''\<rparr>"
  have "sess = Some cart \<and> sess' = None
      \<and> validate_cart tk db cart 0 = Inr tot
      \<and> oid = fresh_id (map o_id (orders db)) \<and> o_id ?ord = oid
      \<and> db' = commit_items tk oid cart (db\<lparr>orders := orders db @ [?ord]\<rparr>)"
    using assms cart eq tot by auto
  then show ?thesis by blast
qed

lemma commit_items_nonneg:
  assumes valid: "validate_cart tk db cart 0 = Inr tot"
    and dist: "distinct (map (\<lambda>line. resolve_id tk (ci_product_id line)) cart)"
    and pk: "distinct (map p_id (products db))"
    and inv: "stock_nonneg db"
    and same: "products db1 = products db"
  shows "stock_nonneg (commit_items tk oid cart db1)"
proof
  fix p'
  assume "p' \<in> set (products (commit_items tk oid cart db1))"
  then obtain p where p: "p \<in> set (products db)"
    and p': "p' = p\<lparr>p_quantity_available := stock_left tk (p_quantity_available p) (p_id p) cart\<rparr>"
    by (auto simp: commit_items_products same)
  have getp: "get_product db (p_id p) = Some p"
    using pk p unfolding get_product_def by (rule find_distinct_key)
  show "0 \<le> p_quantity_available p'"
  proof (cases "filter (\<lambda>line. resolve_id tk (ci_product_id line) = Some (p_id p)) cart = []")
    case True
    then show ?thesis using inv p by (simp add: p')
  next
    case False
    then obtain line where line: "line \<in> set cart"
        "resolve_id tk (ci_product_id line) = Some (p_id p)"
      by (auto simp: filter_empty_conv)
    have one: "filter (\<lambda>l. resolve_id tk (ci_product_id l) = Some (p_id p)) cart = [line]"
      using filter_distinct_key [where key = "\<lambda>l. resolve_id tk (ci_product_id l)", OF dist line(1)]
        line(2)
      by simp
    from validate_cart_Inr [OF valid] line(1) obtain p0 where
      p0: "query_get tk db (ci_product_id line) = Some p0"
        "ci_quantity line \<le> p_quantity_available p0"
      by blast
    have "p0 = p"
      using p0(1) line(2) getp by (simp add: query_get_def)
    then have "ci_quantity line \<le> p_quantity_available p"
      using p0(2) by simp
    then show ?thesis by (simp add: p' one fsub_nonneg)
  qed
qed

text \<open>
  Claim C4, as the specification states it, says that after every committed product
  creation, product update and checkout (among others) every \<^verbatim>\<open>quantity_available\<close> is
  \<open>\<ge> 0\<close>. It fails in two places.

  The two product routes store \<^verbatim>\<open>float(request.form.get('quantity'))\<close> as it is (lines
  744 and 783): the seller who submits \<open>-1\<close> for the apples leaves the row with \<open>-1\<close>.

  The stock re-check of the checkout (lines 482-486) compares each line with the stock
  alone, not the lines of one product together. A cart with two lines for the apples, 30
  kg each, is what \<^verbatim>\<open>add_to_cart\<close> builds from the requests with \<^verbatim>\<open>product_id\<close>
  \<^verbatim>\<open>"1"\<close> and \<^verbatim>\<open>1\<close>; each line passes against the stock of 40, the checkout commits,
  and the second loop takes 30 twice: the apples are left with \<open>-20\<close>.
\<close>

theorem negative_stock_counterexample:
  "fst (update_product 1 negative_stock_form sample_db) = Inr ()
   \<and> map p_quantity_available (products (snd (update_product 1 negative_stock_form sample_db)))
       = [- 1, 35, 25]
   \<and> snd (add_to_cart sample_text_key sample_db
            (snd (add_to_cart sample_text_key sample_db None (StrId ''1'') (Some 30)))
            (IntId 1) (Some 30))
       = Some [apples_line\<lparr>ci_product_id := StrId ''1'', ci_quantity := 30\<rparr>,
               apples_line\<lparr>ci_quantity := 30\<rparr>]
   \<and> fst (process_checkout sample_text_key sample_strptime sample_form sample_db
            (Some [apples_line\<lparr>ci_product_id := StrId ''1'', ci_quantity := 30\<rparr>,
                   apples_line\<lparr>ci_quantity := 30\<rparr>]))
       = Inr 1
   \<and> map p_quantity_available
         (products (fst (snd (process_checkout sample_text_key sample_strptime sample_form sample_db
            (Some [apples_line\<lparr>ci_product_id := StrId ''1'', ci_quantity := 30\<rparr>,
                   apples_line\<lparr>ci_quantity := 30\<rparr>])))))
       = [- 20, 35, 25]"
proof -
  have floats: "fmul 120 30 = 3600" "fadd 0 3600 = 3600" "fadd 3600 3600 = 7200"
    "fsub 40 30 = 10" "fsub 10 30 = - 20"
    by code_simp+
  have seller: "fst (update_product 1 negative_stock_form sample_db) = Inr ()"
    "map p_quantity_available (products (snd (update_product 1 negative_stock_form sample_db)))
       = [- 1, 35, 25]"
    by (simp_all add: update_product_def get_product_def sample_db_def sample_products_def
        negative_stock_form_def)
  have cart: "snd (add_to_cart sample_text_key sample_db
            (snd (add_to_cart sample_text_key sample_db None (StrId ''1'') (Some 30)))
            (IntId 1) (Some 30))
       = Some [apples_line\<lparr>ci_product_id := StrId ''1'', ci_quantity := 30\<rparr>,
               apples_line\<lparr>ci_quantity := 30\<rparr>]"
    by (simp add: add_to_cart_def query_get_def resolve_id_def get_product_def
        sample_text_key_def sample_db_def sample_products_def apples_line_def)
  have checkout: "process_checkout sample_text_key sample_strptime sample_form sample_db
            (Some [apples_line\<lparr>ci_product_id := StrId ''1'', ci_quantity := 30\<rparr>,
                   apples_line\<lparr>ci_quantity := 30\<rparr>])
       = (Inr 1,
          \<lparr>products = (hd sample_products)\<lparr>p_quantity_available := - 20\<rparr> # tl sample_products,
           orders = [sample_order\<lparr>o_total_amount := 7200\<rparr>],
           order_items = [sample_order_item\<lparr>oi_quantity := 30\<rparr>,
                          sample_order_item\<lparr>oi_id := 2, oi_quantity := 30\<rparr>]\<rparr>,
          None)"
    by (simp add: process_checkout_def truthy_def sample_form_def sample_strptime_def
        query_get_def resolve_id_def get_product_def sample_text_key_def sample_db_def
        sample_products_def apples_line_def fresh_id_def commit_item_def sample_order_def
        sample_order_item_def floats)
  have after: "map p_quantity_available
      ((hd sample_products)\<lparr>p_quantity_available := - 20\<rparr> # tl sample_products) = [- 20, 35, 25]"
    by (simp add: sample_products_def)
  show ?thesis
    by (simp only: seller cart checkout fst_conv snd_conv after simp_thms database.simps)
qed

text \<open>
  Claim C4, amended. Marking a product out of stock sets its \<^verbatim>\<open>quantity_available\<close> to
  0 and keeps every \<^verbatim>\<open>quantity_available\<close> \<open>\<ge> 0\<close> when it was so before. Product
  creation and product update store the submitted quantity unchecked: after them every
  \<^verbatim>\<open>quantity_available\<close> is \<open>\<ge> 0\<close> exactly when the submitted quantity is \<open>\<ge> 0\<close>
  (given that it was so before). A committed checkout keeps every \<^verbatim>\<open>quantity_available\<close>
  \<open>\<ge> 0\<close> when it was so before, the ids of the \<^verbatim>\<open>products\<close> table are unique and the
  lines of the cart resolve to pairwise different products; about a cart with two lines
  for one product nothing is said.
\<close>

theorem quantity_available_nonneg:
  "(stock_nonneg db \<longrightarrow> stock_nonneg (snd (mark_out_of_stock pid db)))
   \<and> (get_product db pid = Some pr \<longrightarrow>
        get_product (snd (mark_out_of_stock pid db)) pid = Some (pr\<lparr>p_quantity_available := 0\<rparr>))
   \<and> (process_checkout tk strptime form db (Some cart) = (Inr oid, db', sess') \<longrightarrow>
        distinct (map (\<lambda>line. resolve_id tk (ci_product_id line)) cart) \<longrightarrow>
        distinct (map p_id (products db)) \<longrightarrow>
        stock_nonneg db \<longrightarrow> stock_nonneg db')
   \<and> (stock_nonneg db \<longrightarrow>
        (stock_nonneg (add_product pform db) \<longleftrightarrow> 0 \<le> pf_quantity pform))
   \<and> (stock_nonneg db \<longrightarrow> get_product db pid = Some pr \<longrightarrow>
        (stock_nonneg (snd (update_product pid pform db)) \<longleftrightarrow> 0 \<le> pf_quantity pform))"
proof -
  have mark: "stock_nonneg db \<longrightarrow> stock_nonneg (snd (mark_out_of_stock pid db))"
    by (auto simp: mark_out_of_stock_def split: option.splits)
  have zero: "get_product db pid = Some pr \<longrightarrow>
        get_product (snd (mark_out_of_stock pid db)) pid = Some (pr\<lparr>p_quantity_available := 0\<rparr>)"
  proof
    assume pr: "get_product db pid = Some pr"
    have "find (\<lambda>p. p_id p = pid)
            (map (\<lambda>p. if p_id p = pid then p\<lparr>p_quantity_available := 0\<rparr> else p) (products db))
        = map_option (\<lambda>p. if p_id p = pid then p\<lparr>p_quantity_available := 0\<rparr> else p)
            (find (\<lambda>p. p_id p = pid) (products db))"
      by (rule find_map_same_key) simp
    moreover have "p_id pr = pid"
      using pr by (auto simp: get_product_def find_Some_iff)
    ultimately show "get_product (snd (mark_out_of_stock pid db)) pid
        = Some (pr\<lparr>p_quantity_available := 0\<rparr>)"
      using pr by (simp add: mark_out_of_stock_def query_get_def resolve_id_def get_product_def)
  qed
  have checkout: "process_checkout tk strptime form db (Some cart) = (Inr oid, db', sess') \<longrightarrow>
        distinct (map (\<lambda>line. resolve_id tk (ci_product_id line)) cart) \<longrightarrow>
        distinct (map p_id (products db)) \<longrightarrow>
        stock_nonneg db \<longrightarrow> stock_nonneg db'"
  proof (intro impI)
    assume res: "process_checkout tk strptime form db (Some cart) = (Inr oid, db', sess')"
      and dist: "distinct (map (\<lambda>line. resolve_id tk (ci_product_id line)) cart)"
      and pk: "distinct (map p_id (products db))"
      and inv: "stock_nonneg db"
    from process_checkout_success [OF res] obtain tot ord where
      valid: "validate_cart tk db cart 0 = Inr tot"
      and db': "db' = commit_items tk oid cart (db\<lparr>orders := orders db @ [ord]\<rparr>)"
      by auto
    show "stock_nonneg db'"
      unfolding db' using valid dist pk inv by (rule commit_items_nonneg) simp
  qed
  have add: "stock_nonneg db \<longrightarrow>
        (stock_nonneg (add_product pform db) \<longleftrightarrow> 0 \<le> pf_quantity pform)"
    by (auto simp: add_product_def)
  have upd: "stock_nonneg db \<longrightarrow> get_product db pid = Some pr \<longrightarrow>
        (stock_nonneg (snd (update_product pid pform db)) \<longleftrightarrow> 0 \<le> pf_quantity pform)"
  proof (intro impI)
    assume inv: "stock_nonneg db" and pr: "get_product db pid = Some pr"
    have mem: "pr \<in> set (products db)" "p_id pr = pid"
      using pr by (auto simp: get_product_def find_Some_iff)
    let ?f = "\<lambda>p. if p_id p = pid
                 then p\<lparr>p_name := pf_name pform, p_description := pf_description pform,
                        p_price := pf_price pform, p_original_price := pf_original_price pform,
                        p_quantity_available := pf_quantity pform,
                        p_unit_type := pf_unit_type pform,
                        p_image_path := (case pf_image pform of None \<Rightarrow> p_image_path p
                                         | Some path \<Rightarrow> Some path)\<rparr>
                 else p"
    have prods: "products (snd (update_product pid pform db)) = map ?f (products db)"
      using pr by (simp add: update_product_def)
    have "?f pr \<in> ?f ` set (products db)"
      using mem(1) by (rule imageI)
    then have row: "?f pr \<in> set (products (snd (update_product pid pform db)))"
      by (simp only: prods set_map)
    have stored: "p_quantity_available (?f pr) = pf_quantity pform"
      using mem(2) by simp
    have fwd: "0 \<le> pf_quantity pform"
      if "stock_nonneg (snd (update_product pid pform db))"
    proof -
      from that row have "0 \<le> p_quantity_available (?f pr)"
        by (rule bspec)
      then show ?thesis by (simp only: stored)
    qed
    have bwd: "0 \<le> pf_quantity pform \<Longrightarrow> stock_nonneg (snd (update_product pid pform db))"
      using inv by (auto simp: prods)
    show "stock_nonneg (snd (update_product pid pform db)) \<longleftrightarrow> 0 \<le> pf_quantity pform"
      using fwd bwd by blast
  qed
  show ?thesis
    by (intro conjI) (rule mark zero checkout add upd)+
qed

theorem quantity_available_nonneg_witness:
  "list_all (\<lambda>p. 0 \<le> p_quantity_available p) (products sample_db)
   \<and> list_all (\<lambda>p. 0 \<le> p_quantity_available p) (products (snd (mark_out_of_stock 3 sample_db)))
   \<and> get_product (snd (mark_out_of_stock 3 sample_db)) 3
        = Some ((sample_products ! 2)\<lparr>p_quantity_available := 0\<rparr>)
   \<and> \<not> list_all (\<lambda>p. 0 \<le> p_quantity_available p)
          (products (add_product negative_stock_form sample_db))"
proof -
  have inv: "stock_nonneg sample_db"
    by (simp add: sample_db_def sample_products_def)
  have bread: "get_product sample_db 3 = Some (sample_products ! 2)"
    by (simp add: query_get_def resolve_id_def get_product_def sample_db_def sample_products_def)
  have neg: "\<not> 0 \<le> pf_quantity negative_stock_form"
    by (simp add: negative_stock_form_def)
  have marked: "stock_nonneg (snd (mark_out_of_stock 3 sample_db))"
    using inv quantity_available_nonneg [where db = sample_db and pid = 3, THEN conjunct1]
    by blast
  have zero: "get_product (snd (mark_out_of_stock 3 sample_db)) 3
        = Some ((sample_products ! 2)\<lparr>p_quantity_available := 0\<rparr>)"
    using bread
      quantity_available_nonneg [where db = sample_db and pid = 3
        and pr = "sample_products ! 2", THEN conjunct2, THEN conjunct1]
    by blast
  have added: "\<not> stock_nonneg (add_product negative_stock_form sample_db)"
    using inv neg
      quantity_available_nonneg [where db = sample_db and pform = negative_stock_form,
        THEN conjunct2, THEN conjunct2, THEN conjunct2, THEN conjunct1]
    by blast
  show ?thesis
    using inv marked zero added by (simp add: list_all_iff)
qed

section \<open>Properties of the order back office\<close>

lemma find_append_None:
  "find P xs = None \<Longrightarrow> find P (xs @ ys) = find P ys"
  by (induction xs) (auto split: if_splits)

lemma find_Some_key: "find (\<lambda>x. key x = k) xs = Some x \<Longrightarrow> key x = k \<and> x \<in> set xs"
  by (induction xs) (auto split: if_splits)

lemma sample_checkout:
  "process_checkout sample_text_key sample_strptime sample_form sample_db (Some [apples_line])
     = (Inr 1, ordered_db, None)"
  by (simp add: process_checkout_def truthy_def sample_form_def sample_strptime_def
      query_get_def resolve_id_def get_product_def sample_db_def sample_products_def apples_line_def fresh_id_def
      commit_item_def ordered_db_def sample_order_def sample_order_item_def float_examples)

subsection \<open>Order status\<close>

text \<open>
  Claim C7. For an order that exists, the status update accepts each of
  \<^verbatim>\<open>'pending'\<close>, \<^verbatim>\<open>'ready'\<close>, \<^verbatim>\<open>'completed'\<close> whatever the order's current status is
  (so \<^verbatim>\<open>pending\<close> directly to \<^verbatim>\<open>completed\<close> is allowed): the order gets the status and
  nothing else changes. For any other value, and for a request without a status, it
  answers as on success (the redirect) and the database is unchanged.
\<close>

theorem update_order_status_flat:
  assumes ord: "get_order db oid = Some ord"
  shows "(s \<in> {''pending'', ''ready'', ''completed''} \<longrightarrow>
           (\<exists>db'. update_order_status oid (Some s) db = (Inr (), db')
              \<and> get_order db' oid = Some (ord\<lparr>o_status := s\<rparr>)
              \<and> (\<forall>k. k \<noteq> oid \<longrightarrow> get_order db' k = get_order db k)
              \<and> products db' = products db \<and> order_items db' = order_items db))
       \<and> (new_status \<notin> {Some ''pending'', Some ''ready'', Some ''completed''} \<longrightarrow>
           update_order_status oid new_status db = (Inr (), db))"
proof -
  let ?f = "\<lambda>row. if o_id row = oid then row\<lparr>o_status := s\<rparr> else row"
  let ?db' = "db\<lparr>orders := map ?f (orders db)\<rparr>"
  have key: "o_id ord = oid"
    using ord unfolding get_order_def by (auto dest: find_Some_key)
  have get: "get_order ?db' k = map_option ?f (get_order db k)" for k
  proof -
    have "find (\<lambda>row. o_id row = k) (map ?f (orders db))
        = map_option ?f (find (\<lambda>row. o_id row = k) (orders db))"
      by (rule find_map_same_key) simp
    then show ?thesis by (simp add: get_order_def)
  qed
  have same: "get_order ?db' oid = Some (ord\<lparr>o_status := s\<rparr>)"
    by (simp add: get ord key)
  have others: "get_order ?db' k = get_order db k" if "k \<noteq> oid" for k
  proof (cases "get_order db k")
    case None
    then show ?thesis by (simp add: get)
  next
    case (Some row)
    then have "o_id row = k"
      unfolding get_order_def by (auto dest: find_Some_key)
    then show ?thesis using that Some by (simp add: get)
  qed
  have accept: "s \<in> {''pending'', ''ready'', ''completed''} \<longrightarrow>
           (\<exists>db'. update_order_status oid (Some s) db = (Inr (), db')
              \<and> get_order db' oid = Some (ord\<lparr>o_status := s\<rparr>)
              \<and> (\<forall>k. k \<noteq> oid \<longrightarrow> get_order db' k = get_order db k)
              \<and> products db' = products db \<and> order_items db' = order_items db)"
  proof
    assume s: "s \<in> {''pending'', ''ready'', ''completed''}"
    have run: "update_order_status oid (Some s) db = (Inr (), ?db')"
      using s ord by (auto simp: update_order_status_def)
    have frame: "products ?db' = products db \<and> order_items ?db' = order_items db"
      by simp
    show "\<exists>db'. update_order_status oid (Some s) db = (Inr (), db')
              \<and> get_order db' oid = Some (ord\<lparr>o_status := s\<rparr>)
              \<and> (\<forall>k. k \<noteq> oid \<longrightarrow> get_order db' k = get_order db k)
              \<and> products db' = products db \<and> order_items db' = order_items db"
      using run same others frame by (intro exI [of _ ?db']) blast
  qed
  have reject: "new_status \<notin> {Some ''pending'', Some ''ready'', Some ''completed''} \<longrightarrow>
           update_order_status oid new_status db = (Inr (), db)"
    using ord by (auto simp: update_order_status_def split: option.splits)
  show ?thesis using accept reject by (rule conjI)
qed


theorem update_order_status_flat_witness:
  "get_order ordered_db 1 = Some sample_order
   \<and> o_status sample_order = ''pending''
   \<and> (\<exists>db'. update_order_status 1 (Some ''completed'') ordered_db = (Inr (), db')
         \<and> get_order db' 1 = Some (sample_order\<lparr>o_status := ''completed''\<rparr>))
   \<and> update_order_status 1 (Some ''cancelled'') ordered_db = (Inr (), ordered_db)"
proof -
  have ord: "get_order ordered_db 1 = Some sample_order"
    by (simp add: get_order_def ordered_db_def sample_order_def)
  have status: "o_status sample_order = ''pending''"
    by (simp add: sample_order_def)
  have accepted: "''completed'' \<in> {''pending'', ''ready'', ''completed''}"
    by simp
  have other: "Some ''cancelled'' \<notin> {Some ''pending'', Some ''ready'', Some ''completed''}"
    by simp
  from update_order_status_flat [OF ord, where s = "''completed''", THEN conjunct1] accepted
  have changed: "\<exists>db'. update_order_status 1 (Some ''completed'') ordered_db = (Inr (), db')
         \<and> get_order db' 1 = Some (sample_order\<lparr>o_status := ''completed''\<rparr>)"
    by blast
  from update_order_status_flat [OF ord, where new_status = "Some ''cancelled''", THEN conjunct2]
    other
  have ignored: "update_order_status 1 (Some ''cancelled'') ordered_db = (Inr (), ordered_db)"
    by blast
  show ?thesis
    by (intro conjI) (rule ord status changed ignored)+
qed

subsection \<open>Deleting an order\<close>

text \<open>
  Claim C10. Deleting an order that exists removes that order and all of its items and
  nothing else: the other orders and items stay, and the \<^verbatim>\<open>products\<close> table is the same
  after as before. In particular, deleting the order that a checkout has just created
  leaves every product with the quantity the checkout decremented it to: the stock is not
  restored.
\<close>

theorem delete_order_frame:
  "(get_order db oid = Some ord \<longrightarrow>
      (\<exists>db'. delete_order oid db = (Inr (), db')
         \<and> get_order db' oid = None
         \<and> set (orders db') = set (orders db) - {row. o_id row = oid}
         \<and> set (order_items db') = set (order_items db) - {i. oi_order_id i = oid}
         \<and> products db' = products db))
   \<and> (process_checkout tk strptime form db0 (Some cart) = (Inr oid, db, sess') \<longrightarrow>
      (\<exists>db'. delete_order oid db = (Inr (), db')
         \<and> products db' = products db
         \<and> (\<forall>k. get_product db' k = map_option
               (\<lambda>p. p\<lparr>p_quantity_available := stock_left tk (p_quantity_available p) k cart\<rparr>)
               (get_product db0 k))))"
proof -
  let ?db' = "db\<lparr>order_items := filter (\<lambda>i. oi_order_id i \<noteq> oid) (order_items db),
                 orders := filter (\<lambda>row. o_id row \<noteq> oid) (orders db)\<rparr>"
  have run: "delete_order oid db = (Inr (), ?db')" if "get_order db oid = Some row" for row
    using that by (simp add: delete_order_def)
  have gone: "get_order ?db' oid = None"
    by (simp add: get_order_def find_None_iff)
  have rows: "set (orders ?db') = set (orders db) - {row. o_id row = oid}"
    by auto
  have items: "set (order_items ?db') = set (order_items db) - {i. oi_order_id i = oid}"
    by auto
  have frame: "products ?db' = products db"
    by simp
  have first: "get_order db oid = Some ord \<longrightarrow>
      (\<exists>db'. delete_order oid db = (Inr (), db')
         \<and> get_order db' oid = None
         \<and> set (orders db') = set (orders db) - {row. o_id row = oid}
         \<and> set (order_items db') = set (order_items db) - {i. oi_order_id i = oid}
         \<and> products db' = products db)"
  proof
    assume "get_order db oid = Some ord"
    then have "delete_order oid db = (Inr (), ?db')" by (rule run)
    then show "\<exists>db'. delete_order oid db = (Inr (), db')
         \<and> get_order db' oid = None
         \<and> set (orders db') = set (orders db) - {row. o_id row = oid}
         \<and> set (order_items db') = set (order_items db) - {i. oi_order_id i = oid}
         \<and> products db' = products db"
      using gone rows items frame by (intro exI [of _ ?db']) blast
  qed
  have second: "process_checkout tk strptime form db0 (Some cart) = (Inr oid, db, sess') \<longrightarrow>
      (\<exists>db'. delete_order oid db = (Inr (), db')
         \<and> products db' = products db
         \<and> (\<forall>k. get_product db' k = map_option
               (\<lambda>p. p\<lparr>p_quantity_available := stock_left tk (p_quantity_available p) k cart\<rparr>)
               (get_product db0 k)))"
  proof
    assume res: "process_checkout tk strptime form db0 (Some cart) = (Inr oid, db, sess')"
    from process_checkout_success [OF res] obtain tot row where
      valid: "validate_cart tk db0 cart 0 = Inr tot"
      and oid: "oid = fresh_id (map o_id (orders db0))" "o_id row = oid"
      and db: "db = commit_items tk oid cart (db0\<lparr>orders := orders db0 @ [row]\<rparr>)"
      by auto
    have "orders db = orders db0 @ [row]"
      by (simp add: db commit_items_orders)
    moreover have "find (\<lambda>r. o_id r = oid) (orders db0) = None"
    proof -
      have "o_id r \<noteq> oid" if "r \<in> set (orders db0)" for r
      proof -
        from that have "o_id r \<in> set (map o_id (orders db0))" by simp
        then have "o_id r < oid" unfolding oid(1) by (rule fresh_id_gt)
        then show ?thesis by simp
      qed
      then show ?thesis by (simp add: find_None_iff)
    qed
    ultimately have "get_order db oid = Some row"
      using oid(2) by (simp add: get_order_def find_append_None)
    then have del: "delete_order oid db = (Inr (), ?db')" by (rule run)
    let ?dec = "\<lambda>k p. p\<lparr>p_quantity_available := stock_left tk (p_quantity_available p) k cart\<rparr>"
    have prods: "products db = map (\<lambda>p. ?dec (p_id p) p) (products db0)"
      by (simp add: db commit_items_products)
    have get: "get_product ?db' k = map_option (?dec k) (get_product db0 k)" for k
    proof -
      have "find (\<lambda>p. p_id p = k) (map (\<lambda>p. ?dec (p_id p) p) (products db0))
          = map_option (\<lambda>p. ?dec (p_id p) p) (find (\<lambda>p. p_id p = k) (products db0))"
        by (rule find_map_same_key) simp
      also have "\<dots> = map_option (?dec k) (find (\<lambda>p. p_id p = k) (products db0))"
        by (cases "find (\<lambda>p. p_id p = k) (products db0)") (auto dest: find_Some_key)
      finally show ?thesis by (simp add: query_get_def resolve_id_def get_product_def prods)
    qed
    then have get': "\<forall>k. get_product ?db' k = map_option (?dec k) (get_product db0 k)"
      by blast
    show "\<exists>db'. delete_order oid db = (Inr (), db')
         \<and> products db' = products db
         \<and> (\<forall>k. get_product db' k = map_option (?dec k) (get_product db0 k))"
      by (rule exI [of _ ?db'], intro conjI) (rule del frame get')+
  qed
  show ?thesis using first second by (rule conjI)
qed

theorem delete_order_frame_witness:
  "process_checkout sample_text_key sample_strptime sample_form sample_db (Some [apples_line])
     = (Inr 1, ordered_db, None)
   \<and> map p_quantity_available (products ordered_db) = [38, 35, 25]
   \<and> (\<exists>db'. delete_order 1 ordered_db = (Inr (), db') \<and> products db' = products ordered_db)"
proof -
  have stock: "map p_quantity_available (products ordered_db) = [38, 35, 25]"
    by (simp add: ordered_db_def sample_products_def)
  from delete_order_frame [where strptime = sample_strptime and form = sample_form
      and ?db0.0 = sample_db and cart = "[apples_line]" and oid = 1 and db = ordered_db
      and sess' = None, THEN conjunct2] sample_checkout
  have "\<exists>db'. delete_order 1 ordered_db = (Inr (), db') \<and> products db' = products ordered_db"
    by blast
  then show ?thesis
    using sample_checkout stock by blast
qed

section \<open>Properties of the quantity display\<close>

lemma py_int_whole: "q \<in> \<int> \<Longrightarrow> py_int q = \<lfloor>q\<rfloor>"
  by (auto simp: py_int_def elim!: Ints_cases)

lemma whole_iff: "(q = of_int \<lfloor>q\<rfloor>) = (q \<in> \<int>)"
  by (metis Ints_of_int of_int_floor)

text \<open>
  The doubles of the literals \<^verbatim>\<open>0.1\<close>, \<^verbatim>\<open>0.3\<close> and \<^verbatim>\<open>1.001\<close>, and their products
  with 1000 as the float multiplication rounds them: the last one is
  \<^verbatim>\<open>1000.9999999999999\<close>.
\<close>

lemma float_literals:
  "py_float 0.1 = 3602879701896397 / 36028797018963968"
  "py_float 0.3 = 5404319552844595 / 18014398509481984"
  "py_float 1.001 = 2254051613498933 / 2251799813685248"
  "py_float (1001 / 1000) = 2254051613498933 / 2251799813685248"
  "fmul (5404319552844595 / 18014398509481984) 1000 = 300"
  "fmul (2254051613498933 / 2251799813685248) 1000 = 8804889115230207 / 8796093022208"
  by code_simp+

lemma str_int_examples:
  "str_int 3 = ''3''" "str_int 12 = ''12''" "str_int 300 = ''300''" "str_int 1000 = ''1000''"
  by code_simp+

text \<open>
  Claim C8. \<^verbatim>\<open>format_quantity\<close> is a function of the quantity and the unit type alone.
  For the unit \<^verbatim>\<open>'kg'\<close> the values 1, 0.75, 0.5, 0.25 and 0.1 print as \<^verbatim>\<open>"1 kg"\<close>,
  \<^verbatim>\<open>"750g"\<close>, \<^verbatim>\<open>"500g"\<close>, \<^verbatim>\<open>"250g"\<close>, \<^verbatim>\<open>"100g"\<close>; any other whole number \<open>n\<close> prints
  as \<open>n\<close> followed by \<^verbatim>\<open>" kg"\<close>; any other value prints as the float product
  \<^verbatim>\<open>quantity * 1000\<close>, cut off towards zero, followed by \<^verbatim>\<open>"g"\<close>, so that 0.3 prints as
  \<^verbatim>\<open>"300g"\<close>. For any other unit a whole number prints without a decimal point (3 as
  \<^verbatim>\<open>"3"\<close>) and any other value prints as Python's \<^verbatim>\<open>str\<close> prints it (2.5 as
  \<^verbatim>\<open>"2.5"\<close>, given that \<^verbatim>\<open>str(2.5)\<close> is \<^verbatim>\<open>'2.5'\<close>).
\<close>

theorem format_quantity_cases:
  "format_quantity sf 1 ''kg'' = ''1 kg''
   \<and> format_quantity sf 0.75 ''kg'' = ''750g''
   \<and> format_quantity sf 0.5 ''kg'' = ''500g''
   \<and> format_quantity sf 0.25 ''kg'' = ''250g''
   \<and> format_quantity sf (py_float 0.1) ''kg'' = ''100g''
   \<and> (q \<notin> {1, 0.75, 0.5, 0.25, py_float 0.1} \<longrightarrow> q \<in> \<int> \<longrightarrow>
        format_quantity sf q ''kg'' = str_int \<lfloor>q\<rfloor> @ '' kg'')
   \<and> (q \<notin> {1, 0.75, 0.5, 0.25, py_float 0.1} \<longrightarrow> q \<notin> \<int> \<longrightarrow>
        format_quantity sf q ''kg''
          = str_int (if 0 \<le> fmul q 1000 then \<lfloor>fmul q 1000\<rfloor> else \<lceil>fmul q 1000\<rceil>) @ ''g'')
   \<and> format_quantity sf (py_float 0.3) ''kg'' = ''300g''
   \<and> (u \<noteq> ''kg'' \<longrightarrow> q \<in> \<int> \<longrightarrow> format_quantity sf q u = str_int \<lfloor>q\<rfloor>)
   \<and> format_quantity sf 3 ''quantity'' = ''3''
   \<and> (u \<noteq> ''kg'' \<longrightarrow> q \<notin> \<int> \<longrightarrow> format_quantity sf q u = sf q)
   \<and> (sf 2.5 = ''2.5'' \<longrightarrow> format_quantity sf 2.5 ''quantity'' = ''2.5'')"
proof -
  have special: "format_quantity sf 1 ''kg'' = ''1 kg''"
    "format_quantity sf 0.75 ''kg'' = ''750g''"
    "format_quantity sf 0.5 ''kg'' = ''500g''"
    "format_quantity sf 0.25 ''kg'' = ''250g''"
    "format_quantity sf (py_float 0.1) ''kg'' = ''100g''"
    by (simp_all add: format_quantity_def float_literals)
  have whole_kg: "q \<notin> {1, 0.75, 0.5, 0.25, py_float 0.1} \<longrightarrow> q \<in> \<int> \<longrightarrow>
        format_quantity sf q ''kg'' = str_int \<lfloor>q\<rfloor> @ '' kg''"
    by (simp add: format_quantity_def whole_iff py_int_whole)
  have grams: "q \<notin> {1, 0.75, 0.5, 0.25, py_float 0.1} \<longrightarrow> q \<notin> \<int> \<longrightarrow>
        format_quantity sf q ''kg''
          = str_int (if 0 \<le> fmul q 1000 then \<lfloor>fmul q 1000\<rfloor> else \<lceil>fmul q 1000\<rceil>) @ ''g''"
    by (simp add: format_quantity_def whole_iff py_int_def)
  have three_hundred: "format_quantity sf (py_float 0.3) ''kg'' = ''300g''"
    by (simp add: format_quantity_def float_literals py_int_def str_int_examples)
  have whole_other: "u \<noteq> ''kg'' \<longrightarrow> q \<in> \<int> \<longrightarrow> format_quantity sf q u = str_int \<lfloor>q\<rfloor>"
    by (simp add: format_quantity_def whole_iff py_int_whole)
  have three: "format_quantity sf 3 ''quantity'' = ''3''"
    by (simp add: format_quantity_def py_int_def str_int_examples)
  have raw: "u \<noteq> ''kg'' \<longrightarrow> q \<notin> \<int> \<longrightarrow> format_quantity sf q u = sf q"
    by (simp add: format_quantity_def whole_iff)
  have two_and_a_half: "sf 2.5 = ''2.5'' \<longrightarrow> format_quantity sf 2.5 ''quantity'' = ''2.5''"
    by (simp add: format_quantity_def)
  show ?thesis
    by (intro conjI) (rule special whole_kg grams three_hundred whole_other three raw
        two_and_a_half)+
qed

theorem format_quantity_cases_witness:
  "(12::real) \<notin> {1, 0.75, 0.5, 0.25, py_float 0.1} \<and> (12::real) \<in> \<int>
   \<and> format_quantity sample_str_float 12 ''kg'' = ''12 kg''
   \<and> py_float 1.001 \<notin> {1, 0.75, 0.5, 0.25, py_float 0.1} \<and> py_float 1.001 \<notin> \<int>
   \<and> format_quantity sample_str_float (py_float 1.001) ''kg'' = ''1000g''
   \<and> format_quantity sample_str_float 2.5 ''quantity'' = ''2.5''"
proof -
  have whole: "(12::real) \<notin> {1, 0.75, 0.5, 0.25, py_float 0.1}" "(12::real) \<in> \<int>"
    by (simp_all add: float_literals)
  have "\<lfloor>2254051613498933 / 2251799813685248 :: real\<rfloor> = 1"
    by simp
  then have "(2254051613498933 / 2251799813685248 :: real) \<noteq> of_int \<lfloor>2254051613498933 / 2251799813685248 :: real\<rfloor>"
    by simp
  then have frac: "py_float 1.001 \<notin> {1, 0.75, 0.5, 0.25, py_float 0.1}" "py_float 1.001 \<notin> \<int>"
    by (simp_all add: float_literals whole_iff [symmetric])
  have str: "sample_str_float 2.5 = ''2.5''"
    by (simp add: sample_str_float_def)
  have twelve: "format_quantity sample_str_float 12 ''kg'' = ''12 kg''"
    using format_quantity_cases [where q = 12 and sf = sample_str_float] whole
    by (simp add: str_int_examples)
  have grams: "format_quantity sample_str_float (py_float 1.001) ''kg'' = ''1000g''"
    using format_quantity_cases [where q = "py_float 1.001" and sf = sample_str_float] frac
    by (simp add: float_literals str_int_examples)
  have raw: "format_quantity sample_str_float 2.5 ''quantity'' = ''2.5''"
    using format_quantity_cases [where sf = sample_str_float] str by blast
  show ?thesis
    by (intro conjI) (rule whole frac twelve grams raw)+
qed

end
